theory Spec2Isabelle
  imports Main "HOL-Library.AList"
begin

section \<open>JSON values and \<open>JSON.parse\<close>\<close>

text \<open>
  The server exchanges JSON with its callers, with the generative model and with the
  store. Texts are modelled as \<open>string\<close>, that is, over code units below 256. A number
  keeps its literal: the conversion to a double is not part of the model. An object is
  an association list in insertion order with one entry per key (JavaScript lists the
  keys that are array indices first; the order of the keys plays no part below).
\<close>

datatype json =
    JNull
  | JBool bool
  | JNumber string
  | JString string
  | JArray "json list"
  | JObject "(string \<times> json) list"

type_synonym obj = "(string \<times> json) list"

subsection \<open>Lexical structure\<close>

definition json_ws :: "char \<Rightarrow> bool" where
  "json_ws c \<longleftrightarrow> c = CHR 0x20 \<or> c = CHR 0x09 \<or> c = CHR 0x0A \<or> c = CHR 0x0D"

definition is_digit :: "char \<Rightarrow> bool" where
  "is_digit c \<longleftrightarrow> (48::nat) \<le> of_char c \<and> of_char c \<le> (57::nat)"

definition hex_val :: "char \<Rightarrow> nat option" where
  "hex_val c =
     (let n = (of_char c :: nat) in
      if 48 \<le> n \<and> n \<le> 57 then Some (n - 48)
      else if 65 \<le> n \<and> n \<le> 70 then Some (n - 55)
      else if 97 \<le> n \<and> n \<le> 102 then Some (n - 87)
      else None)"

text \<open>
  \<open>\uXXXX\<close> denotes the code unit with that hexadecimal value. A value of 256 or more
  lies outside the alphabet of this model and is refused here, where \<open>JSON.parse\<close>
  accepts it: texts with such escapes are beyond what the model covers.
\<close>

definition unicode_escape :: "char \<Rightarrow> char \<Rightarrow> char \<Rightarrow> char \<Rightarrow> char option" where
  "unicode_escape a b c d =
     (case (hex_val a, hex_val b, hex_val c, hex_val d) of
        (Some p, Some q, Some r, Some s) \<Rightarrow>
          (let n = ((p * 16 + q) * 16 + r) * 16 + s
           in if n < 256 then Some (char_of n) else None)
      | _ \<Rightarrow> None)"

definition simple_escape :: "char \<Rightarrow> char option" where
  "simple_escape e =
     (if e = CHR 0x22 then Some (CHR 0x22)
      else if e = CHR 0x5C then Some (CHR 0x5C)
      else if e = CHR ''/'' then Some (CHR ''/'')
      else if e = CHR ''b'' then Some (CHR 0x08)
      else if e = CHR ''f'' then Some (CHR 0x0C)
      else if e = CHR ''n'' then Some (CHR 0x0A)
      else if e = CHR ''r'' then Some (CHR 0x0D)
      else if e = CHR ''t'' then Some (CHR 0x09)
      else None)"

text \<open>
  \<open>scan_escape s\<close> decodes the escape sequence that follows a backslash and returns
  the character it denotes and the input after it.
\<close>

definition scan_escape :: "string \<Rightarrow> (char \<times> string) option" where
  "scan_escape s =
     (case s of
        [] \<Rightarrow> None
      | e # es \<Rightarrow>
          if e = CHR ''u'' then
            (case es of
               h1 # h2 # h3 # h4 # rest \<Rightarrow>
                 map_option (\<lambda>u. (u, rest)) (unicode_escape h1 h2 h3 h4)
             | _ \<Rightarrow> None)
          else map_option (\<lambda>x. (x, es)) (simple_escape e))"

lemma scan_escape_shorter:
  "scan_escape s = Some (x, r) \<Longrightarrow> length r < length s"
  by (auto simp: scan_escape_def split: list.splits if_splits)

text \<open>
  \<open>scan_string acc s\<close> reads the rest of a string literal after its opening quote and
  returns the decoded characters and the input after the closing quote. A raw control
  character (below 0x20) is not allowed inside a literal.
\<close>

function scan_string :: "string \<Rightarrow> string \<Rightarrow> (string \<times> string) option" where
  "scan_string acc [] = None"
| "scan_string acc (c # cs) =
     (if c = CHR 0x22 then Some (rev acc, cs)
      else if c = CHR 0x5C then
        (case scan_escape cs of
           None \<Rightarrow> None
         | Some (x, rest) \<Rightarrow> scan_string (x # acc) rest)
      else if (of_char c :: nat) < 32 then None
      else scan_string (c # acc) cs)"
  by pat_completeness auto
termination
proof (relation "measure (\<lambda>(acc, s). length s)")
  show "wf (measure (\<lambda>(acc, s). length s))" by simp
qed (auto dest: scan_escape_shorter)

definition scan_digits :: "string \<Rightarrow> (string \<times> string) option" where
  "scan_digits s =
     (let ds = takeWhile is_digit s
      in if ds = [] then None else Some (ds, dropWhile is_digit s))"

definition scan_int :: "string \<Rightarrow> (string \<times> string) option" where
  "scan_int s =
     (case s of
        [] \<Rightarrow> None
      | c # cs \<Rightarrow> if c = CHR ''0'' then Some ([c], cs) else scan_digits s)"

definition scan_frac :: "string \<Rightarrow> (string \<times> string) option" where
  "scan_frac s =
     (case s of
        [] \<Rightarrow> Some ([], s)
      | c # cs \<Rightarrow>
          if c = CHR ''.'' then
            (case scan_digits cs of
               None \<Rightarrow> None
             | Some (ds, r) \<Rightarrow> Some (c # ds, r))
          else Some ([], s))"

definition scan_sign :: "string \<Rightarrow> string \<times> string" where
  "scan_sign s =
     (case s of
        [] \<Rightarrow> ([], s)
      | c # cs \<Rightarrow> if c = CHR ''+'' \<or> c = CHR ''-'' then ([c], cs) else ([], s))"

definition scan_exp :: "string \<Rightarrow> (string \<times> string) option" where
  "scan_exp s =
     (case s of
        [] \<Rightarrow> Some ([], s)
      | c # cs \<Rightarrow>
          if c = CHR ''e'' \<or> c = CHR ''E'' then
            (case scan_digits (snd (scan_sign cs)) of
               None \<Rightarrow> None
             | Some (ds, r) \<Rightarrow> Some (c # fst (scan_sign cs) @ ds, r))
          else Some ([], s))"

definition scan_minus :: "string \<Rightarrow> string \<times> string" where
  "scan_minus s =
     (case s of
        [] \<Rightarrow> ([], s)
      | c # cs \<Rightarrow> if c = CHR ''-'' then ([c], cs) else ([], s))"

text \<open>The number grammar: \<open>-? (0 | [1-9][0-9]*) (. [0-9]+)? ([eE] [+-]? [0-9]+)?\<close>.\<close>

definition scan_number :: "string \<Rightarrow> (string \<times> string) option" where
  "scan_number s =
     (case scan_int (snd (scan_minus s)) of
        None \<Rightarrow> None
      | Some (i, r1) \<Rightarrow>
          (case scan_frac r1 of
             None \<Rightarrow> None
           | Some (f, r2) \<Rightarrow>
               (case scan_exp r2 of
                  None \<Rightarrow> None
                | Some (e, r3) \<Rightarrow> Some (fst (scan_minus s) @ i @ f @ e, r3))))"

fun strip_prefix :: "string \<Rightarrow> string \<Rightarrow> string option" where
  "strip_prefix [] s = Some s"
| "strip_prefix (p # ps) [] = None"
| "strip_prefix (p # ps) (c # cs) = (if p = c then strip_prefix ps cs else None)"

datatype token =
    TLBrace | TRBrace | TLBrack | TRBrack | TComma | TColon
  | TStr string | TNum string | TTrue | TFalse | TNull

lemma scan_string_shorter:
  "scan_string acc s = Some (v, r) \<Longrightarrow> length r < length s"
proof (induction acc s rule: scan_string.induct)
  case (1 acc)
  then show ?case by simp
next
  case (2 acc c cs)
  show ?case
  proof (cases "c = CHR 0x22")
    case True
    with "2.prems" show ?thesis by simp
  next
    case q: False
    show ?thesis
    proof (cases "c = CHR 0x5C")
      case True
      with "2.prems" q obtain x rest where
        e: "scan_escape cs = Some (x, rest)" and s: "scan_string (x # acc) rest = Some (v, r)"
        by (auto split: option.splits)
      from "2.IH"(1) [OF q True e refl s] have "length r < length rest" .
      with scan_escape_shorter [OF e] show ?thesis by simp
    next
      case b: False
      with "2.prems" q have c: "\<not> (of_char c :: nat) < 32"
        and s: "scan_string (c # acc) cs = Some (v, r)"
        by (auto split: if_splits)
      from "2.IH"(2) [OF q b c s] show ?thesis by simp
    qed
  qed
qed

lemma scan_digits_shorter:
  "scan_digits s = Some (v, r) \<Longrightarrow> length r < length s"
proof -
  assume a: "scan_digits s = Some (v, r)"
  then have "takeWhile is_digit s \<noteq> []" and r: "r = dropWhile is_digit s"
    by (auto simp: scan_digits_def Let_def split: if_splits)
  then have "length (takeWhile is_digit s) > 0" by simp
  moreover have "length (takeWhile is_digit s) + length (dropWhile is_digit s) = length s"
    by (metis length_append takeWhile_dropWhile_id)
  ultimately show ?thesis unfolding r by linarith
qed

lemma scan_int_shorter:
  assumes "scan_int s = Some (v, r)"
  shows "length r < length s"
proof (cases s)
  case Nil
  with assms show ?thesis by (simp add: scan_int_def)
next
  case (Cons c cs)
  show ?thesis
  proof (cases "c = CHR ''0''")
    case True
    with assms Cons show ?thesis by (simp add: scan_int_def)
  next
    case False
    with assms Cons have "scan_digits s = Some (v, r)" by (simp add: scan_int_def)
    then show ?thesis by (rule scan_digits_shorter)
  qed
qed

lemma scan_frac_shorter:
  assumes "scan_frac s = Some (v, r)"
  shows "length r \<le> length s"
proof (cases s)
  case Nil
  with assms show ?thesis by (simp add: scan_frac_def)
next
  case (Cons c cs)
  show ?thesis
  proof (cases "c = CHR ''.''")
    case True
    with assms Cons obtain ds where "scan_digits cs = Some (ds, r)"
      by (auto simp: scan_frac_def split: option.splits)
    from scan_digits_shorter [OF this] Cons show ?thesis by simp
  next
    case False
    with assms Cons show ?thesis by (auto simp: scan_frac_def)
  qed
qed

lemma scan_sign_shorter: "length (snd (scan_sign s)) \<le> length s"
  by (cases s) (simp_all add: scan_sign_def)

lemma scan_minus_shorter: "length (snd (scan_minus s)) \<le> length s"
  by (cases s) (simp_all add: scan_minus_def)

lemma scan_exp_shorter:
  "scan_exp s = Some (v, r) \<Longrightarrow> length r \<le> length s"
proof -
  assume a: "scan_exp s = Some (v, r)"
  show ?thesis
  proof (cases s)
    case Nil
    with a show ?thesis by (simp add: scan_exp_def)
  next
    case (Cons c cs)
    show ?thesis
    proof (cases "c = CHR ''e'' \<or> c = CHR ''E''")
      case True
      with a Cons obtain ds where "scan_digits (snd (scan_sign cs)) = Some (ds, r)"
        by (auto simp: scan_exp_def split: option.splits)
      then have "length r < length (snd (scan_sign cs))" by (rule scan_digits_shorter)
      with scan_sign_shorter [of cs] Cons show ?thesis by simp
    next
      case False
      with a Cons show ?thesis by (auto simp: scan_exp_def)
    qed
  qed
qed

lemma scan_number_shorter:
  "scan_number s = Some (v, r) \<Longrightarrow> length r < length s"
proof -
  assume a: "scan_number s = Some (v, r)"
  then obtain i r1 f r2 e where
    i: "scan_int (snd (scan_minus s)) = Some (i, r1)" and
    f: "scan_frac r1 = Some (f, r2)" and
    e: "scan_exp r2 = Some (e, r)"
    by (auto simp: scan_number_def split: option.splits)
  from i have "length r1 < length (snd (scan_minus s))" by (rule scan_int_shorter)
  moreover from f have "length r2 \<le> length r1" by (rule scan_frac_shorter)
  moreover from e have "length r \<le> length r2" by (rule scan_exp_shorter)
  ultimately show ?thesis using scan_minus_shorter [of s] by linarith
qed

lemma strip_prefix_shorter:
  "strip_prefix p s = Some r \<Longrightarrow> p \<noteq> [] \<Longrightarrow> length r < length s"
proof (induction p s rule: strip_prefix.induct)
  case (3 p ps c cs)
  then show ?case
    by (cases ps) (auto split: if_splits)
qed simp_all

definition punctuation :: "char \<Rightarrow> token option" where
  "punctuation c =
     (if c = CHR ''{'' then Some TLBrace
      else if c = CHR ''}'' then Some TRBrace
      else if c = CHR ''['' then Some TLBrack
      else if c = CHR '']'' then Some TRBrack
      else if c = CHR '','' then Some TComma
      else if c = CHR '':'' then Some TColon
      else None)"

definition literal :: "string \<Rightarrow> (token \<times> string) option" where
  "literal s =
     (case strip_prefix ''true'' s of
        Some r \<Rightarrow> Some (TTrue, r)
      | None \<Rightarrow>
          (case strip_prefix ''false'' s of
             Some r \<Rightarrow> Some (TFalse, r)
           | None \<Rightarrow>
               (case strip_prefix ''null'' s of
                  Some r \<Rightarrow> Some (TNull, r)
                | None \<Rightarrow> None)))"

text \<open>\<open>next_token\<close> reads one token at the head of the input, which is not white space.\<close>

definition next_token :: "string \<Rightarrow> (token \<times> string) option" where
  "next_token s =
     (case s of
        [] \<Rightarrow> None
      | c # cs \<Rightarrow>
          (case punctuation c of
             Some t \<Rightarrow> Some (t, cs)
           | None \<Rightarrow>
               if c = CHR 0x22 then
                 map_option (\<lambda>(v, r). (TStr v, r)) (scan_string [] cs)
               else if c = CHR ''-'' \<or> is_digit c then
                 map_option (\<lambda>(v, r). (TNum v, r)) (scan_number s)
               else literal s))"

lemma literal_shorter:
  assumes "literal s = Some (t, r)"
  shows "length r < length s"
proof -
  from assms consider "strip_prefix ''true'' s = Some r"
    | "strip_prefix ''false'' s = Some r" | "strip_prefix ''null'' s = Some r"
    unfolding literal_def by (simp split: option.splits)
  then show ?thesis
  proof cases
    case 1
    then show ?thesis by (rule strip_prefix_shorter) simp
  next
    case 2
    then show ?thesis by (rule strip_prefix_shorter) simp
  next
    case 3
    then show ?thesis by (rule strip_prefix_shorter) simp
  qed
qed

lemma next_token_shorter:
  assumes "next_token s = Some (t, r)"
  shows "length r < length s"
proof (cases s)
  case Nil
  with assms show ?thesis by (simp add: next_token_def)
next
  case (Cons c cs)
  show ?thesis
  proof (cases "punctuation c")
    case (Some p)
    with assms Cons show ?thesis by (simp add: next_token_def)
  next
    case None
    show ?thesis
    proof (cases "c = CHR 0x22")
      case True
      with assms Cons None obtain v where "scan_string [] cs = Some (v, r)"
        by (auto simp: next_token_def)
      from scan_string_shorter [OF this] Cons show ?thesis by simp
    next
      case q: False
      show ?thesis
      proof (cases "c = CHR ''-'' \<or> is_digit c")
        case True
        with assms Cons None q obtain v where "scan_number s = Some (v, r)"
          by (auto simp: next_token_def)
        then show ?thesis by (rule scan_number_shorter)
      next
        case False
        with assms Cons None q have "literal s = Some (t, r)"
          by (simp add: next_token_def)
        then show ?thesis by (rule literal_shorter)
      qed
    qed
  qed
qed

function tokens :: "string \<Rightarrow> token list option" where
  "tokens [] = Some []"
| "tokens (c # cs) =
     (if json_ws c then tokens cs
      else
        (case next_token (c # cs) of
           None \<Rightarrow> None
         | Some (t, r) \<Rightarrow> map_option ((#) t) (tokens r)))"
  by pat_completeness auto
termination
proof (relation "measure length")
  show "wf (measure length)" by simp
next
  fix c :: char and cs :: string
  show "(cs, c # cs) \<in> measure length" by simp
next
  fix c :: char and cs x2 r and t :: token
  assume "next_token (c # cs) = Some x2" and "(t, r) = x2"
  then have "next_token (c # cs) = Some (t, r)" by simp
  from next_token_shorter [OF this] show "(r, c # cs) \<in> measure length" by simp
qed

declare tokens.simps [simp del]

subsection \<open>Grammar\<close>

text \<open>
  The token sequence is read by a pushdown automaton. A frame records how far the
  enclosing array or object has been read; the frame on top of the stack decides which
  tokens may follow. A repeated key keeps its first position and takes the last value.
\<close>

datatype frame =
    ArrOpen
  | ArrElem "json list"
  | ArrSep "json list"
  | ObjOpen
  | ObjName obj string
  | ObjColon obj string
  | ObjMember obj
  | ObjSep obj

datatype pstate = Open "frame list" | Finished json

fun awaits_value :: "frame list \<Rightarrow> bool" where
  "awaits_value [] = True"
| "awaits_value (ArrOpen # fs) = True"
| "awaits_value (ArrSep vs # fs) = True"
| "awaits_value (ObjColon ms k # fs) = True"
| "awaits_value (f # fs) = False"

fun put_value :: "json \<Rightarrow> frame list \<Rightarrow> pstate option" where
  "put_value v [] = Some (Finished v)"
| "put_value v (ArrOpen # fs) = Some (Open (ArrElem [v] # fs))"
| "put_value v (ArrSep vs # fs) = Some (Open (ArrElem (vs @ [v]) # fs))"
| "put_value v (ObjColon ms k # fs) = Some (Open (ObjMember (AList.update k v ms) # fs))"
| "put_value v (f # fs) = None"

fun step :: "pstate \<Rightarrow> token \<Rightarrow> pstate option" where
  "step (Finished v) t = None"
| "step (Open fs) TNull = put_value JNull fs"
| "step (Open fs) TTrue = put_value (JBool True) fs"
| "step (Open fs) TFalse = put_value (JBool False) fs"
| "step (Open fs) (TNum n) = put_value (JNumber n) fs"
| "step (Open (ObjOpen # fs)) (TStr s) = Some (Open (ObjName [] s # fs))"
| "step (Open (ObjSep ms # fs)) (TStr s) = Some (Open (ObjName ms s # fs))"
| "step (Open fs) (TStr s) = put_value (JString s) fs"
| "step (Open fs) TLBrack = (if awaits_value fs then Some (Open (ArrOpen # fs)) else None)"
| "step (Open fs) TLBrace = (if awaits_value fs then Some (Open (ObjOpen # fs)) else None)"
| "step (Open (ArrOpen # fs)) TRBrack = put_value (JArray []) fs"
| "step (Open (ArrElem vs # fs)) TRBrack = put_value (JArray vs) fs"
| "step (Open (ObjOpen # fs)) TRBrace = put_value (JObject []) fs"
| "step (Open (ObjMember ms # fs)) TRBrace = put_value (JObject ms) fs"
| "step (Open (ArrElem vs # fs)) TComma = Some (Open (ArrSep vs # fs))"
| "step (Open (ObjMember ms # fs)) TComma = Some (Open (ObjSep ms # fs))"
| "step (Open (ObjName ms k # fs)) TColon = Some (Open (ObjColon ms k # fs))"
| "step st t = None"

fun run_tokens :: "pstate \<Rightarrow> token list \<Rightarrow> pstate option" where
  "run_tokens st [] = Some st"
| "run_tokens st (t # ts) =
     (case step st t of
        None \<Rightarrow> None
      | Some st' \<Rightarrow> run_tokens st' ts)"

text \<open>\<open>JSON.parse\<close>: \<open>None\<close> stands for the \<open>SyntaxError\<close> it throws.\<close>

definition JSON_parse :: "string \<Rightarrow> json option" where
  "JSON_parse s =
     (case tokens s of
        None \<Rightarrow> None
      | Some ts \<Rightarrow>
          (case run_tokens (Open []) ts of
             Some (Finished v) \<Rightarrow> Some v
           | _ \<Rightarrow> None))"

section \<open>Requests, responses and JavaScript helpers\<close>

text \<open>
  A handler answers with a status code and a JSON body. \<open>Unhandled\<close> stands for an
  exception that escapes the \<open>async\<close> handler: no response is written.
\<close>

datatype response = Response nat json | Unhandled

definition err :: "string \<Rightarrow> json" where
  "err msg = JObject [(''error'', JString msg)]"

text \<open>
  The digits of a number literal before its exponent. The literal denotes zero when all
  of them are \<open>0\<close> (a literal so small that its double is zero is not covered).
\<close>

definition mantissa_digits :: "string \<Rightarrow> string" where
  "mantissa_digits n = filter is_digit (takeWhile (\<lambda>c. c \<noteq> CHR ''e'' \<and> c \<noteq> CHR ''E'') n)"

text \<open>\<open>!x\<close> for a property \<open>x\<close> read from a JSON object: \<open>None\<close> is \<open>undefined\<close>.\<close>

fun falsy :: "json option \<Rightarrow> bool" where
  "falsy None = True"
| "falsy (Some JNull) = True"
| "falsy (Some (JBool b)) = (\<not> b)"
| "falsy (Some (JNumber n)) = list_all (\<lambda>c. c = CHR ''0'') (mantissa_digits n)"
| "falsy (Some (JString s)) = (s = [])"
| "falsy (Some (JArray vs)) = False"
| "falsy (Some (JObject ms)) = False"

text \<open>\<open>String.prototype.trim\<close> on code units below 256.\<close>

definition js_space :: "char \<Rightarrow> bool" where
  "js_space c \<longleftrightarrow>
     c = CHR 0x09 \<or> c = CHR 0x0A \<or> c = CHR 0x0B \<or> c = CHR 0x0C \<or> c = CHR 0x0D \<or>
     c = CHR 0x20 \<or> c = CHR 0xA0"

definition trim :: "string \<Rightarrow> string" where
  "trim s = rev (dropWhile js_space (rev (dropWhile js_space s)))"

text \<open>
  \<open>text.match(/\{[\s\S]*\}/)\<close>: the match starts at the first \<open>{\<close> and, the star being
  greedy over every character, ends at the last \<open>}\<close> after it. \<open>None\<close> is \<open>null\<close>.
\<close>

definition match_braces :: "string \<Rightarrow> string option" where
  "match_braces text =
     (let start = dropWhile (\<lambda>c. c \<noteq> CHR ''{'') text;
          span = rev (dropWhile (\<lambda>c. c \<noteq> CHR ''}'') (rev start))
      in if span = [] then None else Some span)"

section \<open>The generative model\<close>

text \<open>
  The call \<open>openai.chat.completions.create\<close> is answered by the environment: the
  promise is rejected, or it resolves to a completion whose first choice has a text
  content or \<open>null\<close>. What the model answers does not depend on the handler, so a handler
  takes the answer as an argument and reports how many calls it made.
\<close>

datatype model_reply = Rejected | Completion "string option"

record ai_result =
  reply :: response
  model_calls :: nat

subsection \<open>\<open>POST /ask-ai-chef\<close>\<close>

text \<open>
  The system prompt is built before the \<open>try\<close> block. Interpolating a value into the
  template converts it to a string, which throws for an object that has a property
  named \<open>toString\<close> of its own (no JSON value is callable); an array converts its
  elements. \<open>recipe.ingredients.map\<close> and \<open>recipe.instructions.map\<close> throw unless the
  property is an array. The prompt text itself only reaches the model and is not built.
\<close>

fun to_string_ok :: "json \<Rightarrow> bool" where
  "to_string_ok (JObject ms) = (map_of ms ''toString'' = None)"
| "to_string_ok (JArray vs) = list_all to_string_ok vs"
| "to_string_ok v = True"

definition items_ok :: "json option \<Rightarrow> bool" where
  "items_ok p = (case p of Some (JArray vs) \<Rightarrow> list_all to_string_ok vs | _ \<Rightarrow> False)"

definition prompt_builds :: "json \<Rightarrow> bool" where
  "prompt_builds recipe =
     (case recipe of
        JObject ms \<Rightarrow>
          (case map_of ms ''title'' of None \<Rightarrow> True | Some t \<Rightarrow> to_string_ok t) \<and>
          (case map_of ms ''tag'' of None \<Rightarrow> True | Some t \<Rightarrow> to_string_ok t) \<and>
          items_ok (map_of ms ''ingredients'') \<and>
          items_ok (map_of ms ''instructions'')
      | _ \<Rightarrow> False)"

definition ask_ai_chef :: "model_reply \<Rightarrow> obj \<Rightarrow> ai_result" where
  "ask_ai_chef m body =
     (let question = map_of body ''question''; recipe = map_of body ''recipe'' in
      if falsy question \<or> falsy recipe then
        \<lparr>reply = Response 400 (err ''Question and recipe are required.''), model_calls = 0\<rparr>
      else if \<not> prompt_builds (the recipe) then
        \<lparr>reply = Unhandled, model_calls = 0\<rparr>
      else
        (case m of
           Rejected \<Rightarrow>
             \<lparr>reply = Response 500 (err ''Failed to fetch response from AI.''), model_calls = 1\<rparr>
         | Completion None \<Rightarrow>
             \<lparr>reply = Response 500 (err ''Failed to fetch response from AI.''), model_calls = 1\<rparr>
         | Completion (Some content) \<Rightarrow>
             \<lparr>reply = Response 200 (JObject [(''answer'', JString (trim content))]),
              model_calls = 1\<rparr>))"

subsection \<open>\<open>POST /inspire-recipes\<close>\<close>

text \<open>
  The system prompt interpolates the prompt before the \<open>try\<close> block, which throws for
  a prompt that does not convert to a string. The trimmed completion is handed to
  \<open>JSON.parse\<close> as it is. A \<open>null\<close> content makes \<open>.trim()\<close> throw inside the outer
  \<open>try\<close>.
\<close>

definition inspire_recipes :: "model_reply \<Rightarrow> obj \<Rightarrow> ai_result" where
  "inspire_recipes m body =
     (let prompt = map_of body ''prompt'' in
      if falsy prompt then
        \<lparr>reply = Response 400 (err ''Prompt is required.''), model_calls = 0\<rparr>
      else if \<not> to_string_ok (the prompt) then
        \<lparr>reply = Unhandled, model_calls = 0\<rparr>
      else
        (case m of
           Rejected \<Rightarrow>
             \<lparr>reply = Response 500 (err ''Failed to generate recipe inspiration.''),
              model_calls = 1\<rparr>
         | Completion None \<Rightarrow>
             \<lparr>reply = Response 500 (err ''Failed to generate recipe inspiration.''),
              model_calls = 1\<rparr>
         | Completion (Some content) \<Rightarrow>
             (case JSON_parse (trim content) of
                None \<Rightarrow>
                  \<lparr>reply = Response 500 (err ''Failed to parse AI response.''), model_calls = 1\<rparr>
              | Some recipes \<Rightarrow>
                  \<lparr>reply = Response 200 (JObject [(''recipes'', recipes)]), model_calls = 1\<rparr>)))"

subsection \<open>\<open>POST /analyze-recipe-image\<close>, upload variant\<close>

text \<open>
  The upload middleware has stored the file of the request, if there is one, under
  \<open>uploads/\<close> and passes its path as \<open>req.file.path\<close>; \<open>req.file\<close> is \<open>undefined\<close> for a
  request without a file. The handler works on the set of files under \<open>uploads/\<close>: it
  reads the file, and \<open>fs.unlinkSync\<close> removes it. Everything happens inside one \<open>try\<close>
  block whose handler answers 500; the inner \<open>try\<close> around the parsing returns its own
  500 response.
\<close>

record upload_result =
  upload_reply :: response
  upload_model_calls :: nat
  uploads :: "string set"

definition analyze_failed :: "nat \<Rightarrow> string set \<Rightarrow> upload_result" where
  "analyze_failed n files =
     \<lparr>upload_reply = Response 500 (err ''Failed to analyze image.''),
      upload_model_calls = n, uploads = files\<rparr>"

definition parse_failed :: "string set \<Rightarrow> upload_result" where
  "parse_failed files =
     \<lparr>upload_reply = Response 500 (err ''Failed to parse AI response.''),
      upload_model_calls = 1, uploads = files\<rparr>"

definition analyze_recipe_image_upload ::
  "model_reply \<Rightarrow> string set \<Rightarrow> string option \<Rightarrow> upload_result" where
  "analyze_recipe_image_upload m files file =
     (case file of
        None \<Rightarrow> analyze_failed 0 files
      | Some filePath \<Rightarrow>
          if filePath \<notin> files then analyze_failed 0 files
          else
            (case m of
               Rejected \<Rightarrow> analyze_failed 1 files
             | Completion None \<Rightarrow> parse_failed files
             | Completion (Some text) \<Rightarrow>
                 (case match_braces text of
                    None \<Rightarrow> parse_failed files
                  | Some span \<Rightarrow>
                      (case JSON_parse span of
                         None \<Rightarrow> parse_failed files
                       | Some extracted \<Rightarrow>
                           \<lparr>upload_reply = Response 200 extracted,
                            upload_model_calls = 1,
                            uploads = files - {filePath}\<rparr>))))"

subsection \<open>\<open>POST /analyze-recipe-image\<close>, inline variant\<close>

text \<open>
  The image arrives as a string in the body. \<open>image.replace\<close> runs before the \<open>try\<close>
  block and throws for a value that is not a string. \<open>JSON.parse(null)\<close> parses the text
  \<open>null\<close>.
\<close>

definition analyze_recipe_image_inline :: "model_reply \<Rightarrow> obj \<Rightarrow> ai_result" where
  "analyze_recipe_image_inline m body =
     (let image = map_of body ''image'' in
      if falsy image then
        \<lparr>reply = Response 400 (err ''Image data is required.''), model_calls = 0\<rparr>
      else
        (case image of
           Some (JString base64) \<Rightarrow>
             (case m of
                Rejected \<Rightarrow>
                  \<lparr>reply = Response 500 (err ''Failed to analyze recipe image.''),
                   model_calls = 1\<rparr>
              | Completion content \<Rightarrow>
                  (case JSON_parse (case content of None \<Rightarrow> ''null'' | Some text \<Rightarrow> text) of
                     None \<Rightarrow>
                       \<lparr>reply = Response 500 (err ''Failed to parse recipe data from image.''),
                        model_calls = 1\<rparr>
                   | Some recipeData \<Rightarrow>
                       \<lparr>reply = Response 200 (JObject [(''recipe'', recipeData)]),
                        model_calls = 1\<rparr>))
         | _ \<Rightarrow> \<lparr>reply = Unhandled, model_calls = 0\<rparr>))"

section \<open>The store\<close>

text \<open>
  The store holds the two relations the server uses. A row of \<open>recipes\<close> is the JSON
  object the store's REST interface exchanges; of a row of \<open>favorites\<close> the server reads
  and writes the two columns \<open>user_id\<close> and \<open>recipe_id\<close>. Every request to the store is
  answered by the environment: with an error (the connection, a constraint of the
  schema, a malformed filter) or by carrying the request out. A handler therefore takes
  one \<open>store_reply\<close> for each request it may send.
\<close>

type_synonym row = obj

record favorite =
  fav_user_id :: json
  fav_recipe_id :: json

record store =
  recipes :: "row list"
  favorites :: "favorite list"

datatype store_reply = StoreError string | StoreOk

definition success :: "json \<Rightarrow> json" where
  "success data = JObject [(''success'', JBool True), (''data'', data)]"

definition rows_json :: "row list \<Rightarrow> json" where
  "rows_json rs = JArray (map JObject rs)"

subsection \<open>Favorites\<close>

text \<open>\<open>.eq('user_id', user_id).eq('recipe_id', recipe_id)\<close> on \<open>favorites\<close>.\<close>

definition is_pair :: "json \<Rightarrow> json \<Rightarrow> favorite \<Rightarrow> bool" where
  "is_pair u r f \<longleftrightarrow> fav_user_id f = u \<and> fav_recipe_id f = r"

text \<open>\<open>POST /favorite-recipe\<close>: an insert without \<open>select\<close>, whose \<open>data\<close> is \<open>null\<close>.\<close>

definition favorite_recipe :: "store_reply \<Rightarrow> store \<Rightarrow> obj \<Rightarrow> response \<times> store" where
  "favorite_recipe db s body =
     (let user_id = map_of body ''user_id''; recipe_id = map_of body ''recipe_id'' in
      if falsy user_id \<or> falsy recipe_id then
        (Response 400 (err ''Missing user_id or recipe_id.''), s)
      else
        (case db of
           StoreError e \<Rightarrow> (Response 500 (err ''Failed to favorite recipe.''), s)
         | StoreOk \<Rightarrow>
             (Response 200 (success JNull),
              s\<lparr>favorites := favorites s @
                   [\<lparr>fav_user_id = the user_id, fav_recipe_id = the recipe_id\<rparr>]\<rparr>)))"

text \<open>\<open>DELETE /favorite-recipe\<close>.\<close>

definition unfavorite_recipe :: "store_reply \<Rightarrow> store \<Rightarrow> obj \<Rightarrow> response \<times> store" where
  "unfavorite_recipe db s body =
     (let user_id = map_of body ''user_id''; recipe_id = map_of body ''recipe_id'' in
      if falsy user_id \<or> falsy recipe_id then
        (Response 400 (err ''Missing user_id or recipe_id.''), s)
      else
        (case db of
           StoreError e \<Rightarrow> (Response 500 (err ''Failed to unfavorite recipe.''), s)
         | StoreOk \<Rightarrow>
             (Response 200 (JObject [(''success'', JBool True)]),
              s\<lparr>favorites :=
                   filter (\<lambda>f. \<not> is_pair (the user_id) (the recipe_id) f) (favorites s)\<rparr>)))"

text \<open>
  \<open>POST /favorite-recipe-check\<close>. \<open>maybeSingle()\<close> gives \<open>null\<close> for no row, the row for one
  row, and an error for more than one; the row selected is an object, hence truthy.
\<close>

definition favorite_recipe_check :: "store_reply \<Rightarrow> store \<Rightarrow> obj \<Rightarrow> response" where
  "favorite_recipe_check db s body =
     (let user_id = map_of body ''user_id''; recipe_id = map_of body ''recipe_id'' in
      if falsy user_id \<or> falsy recipe_id then
        Response 400 (err ''Missing user_id or recipe_id.'')
      else
        (case db of
           StoreError e \<Rightarrow> Response 500 (err ''Failed to check favorite status.'')
         | StoreOk \<Rightarrow>
             (case filter (is_pair (the user_id) (the recipe_id)) (favorites s) of
                [] \<Rightarrow> Response 200 (JObject [(''isFavorited'', JBool False)])
              | [f] \<Rightarrow> Response 200 (JObject [(''isFavorited'', JBool True)])
              | f # g # fs \<Rightarrow> Response 500 (err ''Failed to check favorite status.''))))"

subsection \<open>Recipes\<close>

text \<open>
  \<open>POST /save-recipe\<close> inserts the recipe as it is. The store fills in the columns the
  recipe does not give (\<open>id\<close>, \<open>created_at\<close>): \<open>defaults\<close> are the values it chooses.
\<close>

definition save_recipe ::
  "store_reply \<Rightarrow> obj \<Rightarrow> store \<Rightarrow> obj \<Rightarrow> response \<times> store" where
  "save_recipe db defaults s body =
     (case map_of body ''recipe'' of
        Some (JObject recipe) \<Rightarrow>
          if falsy (map_of recipe ''title'') then (Response 400 (err ''Invalid recipe.''), s)
          else
            (case db of
               StoreError e \<Rightarrow> (Response 500 (err ''Failed to save recipe.''), s)
             | StoreOk \<Rightarrow>
                 (Response 200 (success (rows_json [AList.merge defaults recipe])),
                  s\<lparr>recipes := recipes s @ [AList.merge defaults recipe]\<rparr>))
      | _ \<Rightarrow> (Response 400 (err ''Invalid recipe.''), s))"

text \<open>
  \<open>PATCH /update-recipe\<close>: \<open>const { id, ...fieldsToUpdate } = req.body\<close> takes \<open>id\<close> out of
  the body; the rest is written to the rows whose \<open>id\<close> equals it.
\<close>

definition fieldsToUpdate :: "obj \<Rightarrow> obj" where
  "fieldsToUpdate body = filter (\<lambda>(k, v). k \<noteq> ''id'') body"

definition has_id :: "json \<Rightarrow> row \<Rightarrow> bool" where
  "has_id i r \<longleftrightarrow> map_of r ''id'' = Some i"

definition update_row :: "json \<Rightarrow> obj \<Rightarrow> row \<Rightarrow> row" where
  "update_row i written r = (if has_id i r then AList.merge r written else r)"

definition update_recipe :: "store_reply \<Rightarrow> store \<Rightarrow> obj \<Rightarrow> response \<times> store" where
  "update_recipe db s body =
     (let id = map_of body ''id'' in
      if falsy id then (Response 400 (err ''Recipe id is required.''), s)
      else
        (case db of
           StoreError e \<Rightarrow> (Response 500 (err ''Failed to update recipe.''), s)
         | StoreOk \<Rightarrow>
             (Response 200
                (success (rows_json
                   (map (update_row (the id) (fieldsToUpdate body))
                      (filter (has_id (the id)) (recipes s))))),
              s\<lparr>recipes := map (update_row (the id) (fieldsToUpdate body)) (recipes s)\<rparr>)))"

text \<open>
  \<open>POST /delete-recipe\<close> sends two requests: it deletes the favorites of the recipe,
  then the recipe. An error of the second leaves the first carried out.
\<close>

definition delete_recipe ::
  "store_reply \<Rightarrow> store_reply \<Rightarrow> store \<Rightarrow> obj \<Rightarrow> response \<times> store" where
  "delete_recipe db1 db2 s body =
     (let id = map_of body ''id'' in
      if falsy id then (Response 400 (err ''Recipe id is required.''), s)
      else
        (case db1 of
           StoreError e \<Rightarrow> (Response 500 (err ''Failed to delete recipe.''), s)
         | StoreOk \<Rightarrow>
             (let s1 = s\<lparr>favorites := filter (\<lambda>f. fav_recipe_id f \<noteq> the id) (favorites s)\<rparr> in
              case db2 of
                StoreError e \<Rightarrow> (Response 500 (err ''Failed to delete recipe.''), s1)
              | StoreOk \<Rightarrow>
                  (Response 200 (success (rows_json (filter (has_id (the id)) (recipes s1)))),
                   s1\<lparr>recipes := filter (\<lambda>r. \<not> has_id (the id) r) (recipes s1)\<rparr>))))"

subsection \<open>Listing\<close>

text \<open>
  A parameter of the query string is a string or, when its name is repeated, an array
  of strings. \<open>user_id\<close> and \<open>search\<close> are taken as strings.
\<close>

datatype qparam = QString string | QArray "string list"

record listing_query =
  q_user_id :: "string option"
  q_search :: "string option"
  q_tag :: "qparam option"

definition given :: "string option \<Rightarrow> bool" where
  "given p = (case p of None \<Rightarrow> False | Some v \<Rightarrow> v \<noteq> [])"

text \<open>\<open>tag.split(',')\<close>.\<close>

fun split_commas :: "string \<Rightarrow> string \<Rightarrow> string list" where
  "split_commas acc [] = [rev acc]"
| "split_commas acc (c # cs) =
     (if c = CHR '','' then rev acc # split_commas [] cs else split_commas (c # acc) cs)"

text \<open>\<open>Array.isArray(tag) ? tag : tag.split(',')\<close>, for a truthy \<open>tag\<close>; \<open>None\<close> when the
  filter is skipped.\<close>

definition tags_of :: "qparam option \<Rightarrow> string list option" where
  "tags_of p =
     (case p of
        None \<Rightarrow> None
      | Some (QArray ts) \<Rightarrow> Some ts
      | Some (QString t) \<Rightarrow> if t = [] then None else Some (split_commas [] t))"

text \<open>\<open>toLowerCase\<close> on code units below 256: the Latin capital letters.\<close>

definition to_lower :: "char \<Rightarrow> char" where
  "to_lower c =
     (let n = (of_char c :: nat) in
      if (65 \<le> n \<and> n \<le> 90) \<or> (192 \<le> n \<and> n \<le> 222 \<and> n \<noteq> 215) then char_of (n + 32)
      else c)"

definition toLowerCase :: "string \<Rightarrow> string" where
  "toLowerCase s = map to_lower s"

text \<open>\<open>s.includes(t)\<close> on strings.\<close>

fun js_includes :: "string \<Rightarrow> string \<Rightarrow> bool" where
  "js_includes [] t = (t = [])"
| "js_includes (c # cs) t = (strip_prefix t (c # cs) \<noteq> None \<or> js_includes cs t)"

text \<open>
  The pattern of \<open>ilike\<close>, as the store reads it: \<open>%\<close> stands for any string, \<open>_\<close> for
  any one character, a backslash takes the next character literally, and a pattern
  must not end in a backslash. The REST interface of the store reads \<open>*\<close> as \<open>%\<close>.
  Letters match whatever their case; the store is taken to fold case as \<open>to_lower\<close> does.
\<close>

datatype like_tok = AnyString | AnyChar | Lit char

fun like_tokens :: "string \<Rightarrow> like_tok list option" where
  "like_tokens [] = Some []"
| "like_tokens (c # cs) =
     (if c = CHR 0x5C then
        (case cs of
           [] \<Rightarrow> None
         | e # es \<Rightarrow> map_option ((#) (Lit e)) (like_tokens es))
      else if c = CHR ''%'' \<or> c = CHR ''*'' then map_option ((#) AnyString) (like_tokens cs)
      else if c = CHR ''_'' then map_option ((#) AnyChar) (like_tokens cs)
      else map_option ((#) (Lit c)) (like_tokens cs))"

fun like_match :: "like_tok list \<Rightarrow> string \<Rightarrow> bool" where
  "like_match [] s = (s = [])"
| "like_match (Lit c # p) [] = False"
| "like_match (Lit c # p) (d # ds) = (c = d \<and> like_match p ds)"
| "like_match (AnyChar # p) [] = False"
| "like_match (AnyChar # p) (d # ds) = like_match p ds"
| "like_match (AnyString # p) [] = like_match p []"
| "like_match (AnyString # p) (d # ds) =
     (like_match p (d # ds) \<or> like_match (AnyString # p) ds)"

text \<open>\<open>.ilike('title', `%${search}%`)\<close> on one row; \<open>None\<close> is the store's error.\<close>

definition ilike_title :: "string \<Rightarrow> row \<Rightarrow> bool option" where
  "ilike_title search r =
     (case like_tokens (toLowerCase (''%'' @ search @ ''%'')) of
        None \<Rightarrow> None
      | Some p \<Rightarrow>
          Some (case map_of r ''title'' of
                  Some (JString title) \<Rightarrow> like_match p (toLowerCase title)
                | _ \<Rightarrow> False))"

text \<open>
  \<open>.overlaps('tag', tags)\<close> sends the array literal \<open>{a,b,...}\<close>, which the store reads
  back at its commas; an empty element makes the literal malformed. Quotes, braces,
  backslashes and blanks around an element, which the store also interprets, are not
  covered.
\<close>

fun join_commas :: "string list \<Rightarrow> string" where
  "join_commas [] = []"
| "join_commas [t] = t"
| "join_commas (t # u # ts) = t @ CHR '','' # join_commas (u # ts)"

definition array_literal :: "string list \<Rightarrow> string list option" where
  "array_literal tags =
     (if tags = [] then Some []
      else if [] \<in> set (split_commas [] (join_commas tags)) then None
      else Some (split_commas [] (join_commas tags)))"

definition overlaps_tag :: "string list \<Rightarrow> row \<Rightarrow> bool" where
  "overlaps_tag elems r =
     (case map_of r ''tag'' of
        Some (JArray vs) \<Rightarrow> list_ex (\<lambda>t. JString t \<in> set vs) elems
      | _ \<Rightarrow> False)"

text \<open>\<open>GET /api/recipes\<close>: the filters are part of the one request to the store.\<close>

definition list_recipes :: "store_reply \<Rightarrow> store \<Rightarrow> listing_query \<Rightarrow> response" where
  "list_recipes db s q =
     (if \<not> given (q_user_id q) then Response 400 (err ''user_id is required'')
      else
        (case db of
           StoreError e \<Rightarrow> Response 500 (err e)
         | StoreOk \<Rightarrow>
             (let owned = filter (\<lambda>r. map_of r ''user_id'' = Some (JString (the (q_user_id q))))
                            (recipes s);
                  found = (if given (q_search q)
                           then filter (\<lambda>r. ilike_title (the (q_search q)) r = Some True) owned
                           else owned)
              in if given (q_search q) \<and>
                    like_tokens (toLowerCase (''%'' @ the (q_search q) @ ''%'')) = None
                 then Response 500 (err ''LIKE pattern must not end with escape character'')
                 else
                   (case tags_of (q_tag q) of
                      None \<Rightarrow> Response 200 (JObject [(''recipes'', rows_json found)])
                    | Some tags \<Rightarrow>
                        (case array_literal tags of
                           None \<Rightarrow> Response 500 (err ''malformed array literal'')
                         | Some elems \<Rightarrow>
                             Response 200
                               (JObject [(''recipes'',
                                  rows_json (filter (overlaps_tag elems) found))]))))))"

text \<open>
  \<open>GET /api/favorite-recipes\<close>: the store joins each favorite of the user to its recipe
  (\<open>null\<close> when there is none) and the handler filters the recipes itself. It has no
  \<open>try\<close> block: \<open>recipe.title.toLowerCase()\<close> throws unless the recipe is an object whose
  title is a string, and \<open>recipe.tag.includes(t)\<close> throws unless the tag is an array or a
  string.
\<close>

definition recipe_columns :: "string list" where
  "recipe_columns =
     [''id'', ''title'', ''tag'', ''ingredients'', ''instructions'', ''nutrition_info'',
      ''user_id'', ''highlight'', ''image'', ''supporting_images'', ''created_at'']"

definition embedded_recipe :: "store \<Rightarrow> favorite \<Rightarrow> json" where
  "embedded_recipe s f =
     (case find (has_id (fav_recipe_id f)) (recipes s) of
        None \<Rightarrow> JNull
      | Some r \<Rightarrow> JObject (filter (\<lambda>(k, v). k \<in> set recipe_columns) r))"

text \<open>The two callbacks of \<open>filter\<close>; \<open>None\<close> is a thrown \<open>TypeError\<close>.\<close>

definition title_includes :: "string \<Rightarrow> json \<Rightarrow> bool option" where
  "title_includes search recipe =
     (case recipe of
        JObject r \<Rightarrow>
          (case map_of r ''title'' of
             Some (JString title) \<Rightarrow> Some (js_includes (toLowerCase title) (toLowerCase search))
           | _ \<Rightarrow> None)
      | _ \<Rightarrow> None)"

definition tag_includes :: "string list \<Rightarrow> json \<Rightarrow> bool option" where
  "tag_includes tags recipe =
     (if tags = [] then Some False
      else
        (case recipe of
           JObject r \<Rightarrow>
             (case map_of r ''tag'' of
                Some (JArray vs) \<Rightarrow> Some (list_ex (\<lambda>t. JString t \<in> set vs) tags)
              | Some (JString v) \<Rightarrow> Some (list_ex (\<lambda>t. js_includes v t) tags)
              | _ \<Rightarrow> None)
         | _ \<Rightarrow> None))"

text \<open>\<open>Array.prototype.filter\<close> with a callback that may throw.\<close>

fun filter_throwing :: "('a \<Rightarrow> bool option) \<Rightarrow> 'a list \<Rightarrow> 'a list option" where
  "filter_throwing p [] = Some []"
| "filter_throwing p (x # xs) =
     (case p x of
        None \<Rightarrow> None
      | Some b \<Rightarrow>
          (case filter_throwing p xs of
             None \<Rightarrow> None
           | Some ys \<Rightarrow> Some (if b then x # ys else ys)))"

definition favorite_recipes :: "store_reply \<Rightarrow> store \<Rightarrow> listing_query \<Rightarrow> response" where
  "favorite_recipes db s q =
     (if \<not> given (q_user_id q) then Response 400 (err ''user_id is required'')
      else
        (case db of
           StoreError e \<Rightarrow> Response 500 (err e)
         | StoreOk \<Rightarrow>
             (let favoriteRecipes =
                    map (embedded_recipe s)
                      (filter (\<lambda>f. fav_user_id f = JString (the (q_user_id q))) (favorites s));
                  searched = (if given (q_search q)
                              then filter_throwing (title_includes (the (q_search q))) favoriteRecipes
                              else Some favoriteRecipes)
              in case searched of
                   None \<Rightarrow> Unhandled
                 | Some filteredRecipes \<Rightarrow>
                     (case tags_of (q_tag q) of
                        None \<Rightarrow> Response 200 (JObject [(''recipes'', JArray filteredRecipes)])
                      | Some tags \<Rightarrow>
                          (case filter_throwing (tag_includes tags) filteredRecipes of
                             None \<Rightarrow> Unhandled
                           | Some tagged \<Rightarrow>
                               Response 200 (JObject [(''recipes'', JArray tagged)]))))))"

subsection \<open>Sequences of requests\<close>

text \<open>A request that can change the store, with the replies the store gives to it.\<close>

datatype call =
    SaveRecipe store_reply obj obj
  | UpdateRecipe store_reply obj
  | DeleteRecipe store_reply store_reply obj
  | FavoriteRecipe store_reply obj
  | UnfavoriteRecipe store_reply obj

fun exec :: "call \<Rightarrow> store \<Rightarrow> store" where
  "exec (SaveRecipe db defaults body) s = snd (save_recipe db defaults s body)"
| "exec (UpdateRecipe db body) s = snd (update_recipe db s body)"
| "exec (DeleteRecipe db1 db2 body) s = snd (delete_recipe db1 db2 s body)"
| "exec (FavoriteRecipe db body) s = snd (favorite_recipe db s body)"
| "exec (UnfavoriteRecipe db body) s = snd (unfavorite_recipe db s body)"

fun run :: "call list \<Rightarrow> store \<Rightarrow> store" where
  "run [] s = s"
| "run (c # cs) s = run cs (exec c s)"

section \<open>Properties of the specification\<close>



text \<open>The characters a JSON text can begin with, white space apart.\<close>

definition begins_json :: "char \<Rightarrow> bool" where
  "begins_json c \<longleftrightarrow>
     c = CHR ''{'' \<or> c = CHR ''['' \<or> c = CHR 0x22 \<or> c = CHR ''-'' \<or> is_digit c \<or>
     c = CHR ''t'' \<or> c = CHR ''f'' \<or> c = CHR ''n''"

text \<open>The rows of \<open>favorites\<close> for a pair of a user and a recipe.\<close>

definition pair_rows :: "store \<Rightarrow> json \<Rightarrow> json \<Rightarrow> favorite list" where
  "pair_rows s u r = filter (is_pair u r) (favorites s)"

text \<open>
  The requests that can change the owner of a recipe with id \<open>i\<close> that is already
  stored: an update whose body has a \<open>user_id\<close> key. A save that the store carries out
  and that stores a new row under the same id is set apart; the store does not give an
  id twice.
\<close>

fun sets_owner :: "call \<Rightarrow> bool" where
  "sets_owner (UpdateRecipe db body) = (map_of body ''user_id'' \<noteq> None)"
| "sets_owner c = False"

fun saves_under :: "json \<Rightarrow> call \<Rightarrow> bool" where
  "saves_under i (SaveRecipe db defaults body) =
     (db = StoreOk \<and>
      (case map_of body ''recipe'' of
         Some (JObject recipe) \<Rightarrow> has_id i (AList.merge defaults recipe)
       | _ \<Rightarrow> False))"
| "saves_under i c = False"

text \<open>The characters that the pattern of \<open>ilike\<close> does not take literally.\<close>

definition wildcard :: "char \<Rightarrow> bool" where
  "wildcard c \<longleftrightarrow> c = CHR ''%'' \<or> c = CHR ''*'' \<or> c = CHR ''_'' \<or> c = CHR 0x5C"

section \<open>The AI handlers\<close>

subsection \<open>What a successful response carries\<close>







subsection \<open>Prose around the payload\<close>

lemma match_braces_wrapped:
  assumes "CHR ''{'' \<notin> set pre" and "CHR ''}'' \<notin> set post"
  shows "match_braces (pre @ CHR ''{'' # mid @ CHR ''}'' # post)
         = Some (CHR ''{'' # mid @ [CHR ''}''])"
proof -
  have a: "dropWhile (\<lambda>c. c \<noteq> CHR ''{'') (pre @ CHR ''{'' # mid @ CHR ''}'' # post)
           = CHR ''{'' # mid @ CHR ''}'' # post"
    using assms(1) by (induction pre) auto
  have b: "dropWhile (\<lambda>c. c \<noteq> CHR ''}'') (rev post @ CHR ''}'' # rev mid @ [CHR ''{''])
           = CHR ''}'' # rev mid @ [CHR ''{'']"
    using assms(2) by (induction post rule: rev_induct) auto
  show ?thesis
    unfolding match_braces_def a by (simp add: b)
qed

lemma dropWhile_keeps_last:
  "\<not> P x \<Longrightarrow> \<exists>zs. dropWhile P (ys @ [x]) = zs @ [x]"
  by (induction ys) auto

lemma trim_head:
  assumes "trim s = c # cs"
  shows "\<not> js_space c"
proof (cases "dropWhile js_space s")
  case Nil
  with assms show ?thesis by (simp add: trim_def)
next
  case (Cons x xs)
  then have x: "\<not> js_space x"
    by (metis hd_dropWhile list.distinct(1) list.sel(1))
  from dropWhile_keeps_last [of js_space x "rev xs"] x obtain zs where
    "dropWhile js_space (rev xs @ [x]) = zs @ [x]" by blast
  with assms Cons have "c = x" by (simp add: trim_def)
  with x show ?thesis by simp
qed

lemma json_ws_space: "json_ws c \<Longrightarrow> js_space c"
  by (auto simp: json_ws_def js_space_def)

lemma literal_needs_tfn:
  assumes "c \<noteq> CHR ''t''" and "c \<noteq> CHR ''f''" and "c \<noteq> CHR ''n''"
  shows "literal (c # cs) = None"
  using assms by (auto simp: literal_def)

lemma JSON_parse_prose:
  assumes "\<not> json_ws c" and "\<not> begins_json c"
  shows "JSON_parse (c # cs) = None"
proof (cases "punctuation c")
  case None
  with assms have "next_token (c # cs) = None"
    by (simp add: next_token_def begins_json_def literal_needs_tfn)
  with assms(1) have "tokens (c # cs) = None" by (simp add: tokens.simps)
  then show ?thesis by (simp add: JSON_parse_def)
next
  case (Some p)
  with assms(2) have p: "p = TRBrace \<or> p = TRBrack \<or> p = TComma \<or> p = TColon"
    by (auto simp: punctuation_def begins_json_def split: if_splits)
  from Some have "next_token (c # cs) = Some (p, cs)" by (simp add: next_token_def)
  with assms(1) have t: "tokens (c # cs) = map_option ((#) p) (tokens cs)"
    by (simp add: tokens.simps)
  show ?thesis
  proof (cases "tokens cs")
    case None
    with t show ?thesis by (simp add: JSON_parse_def)
  next
    case (Some ts)
    with t p show ?thesis by (auto simp: JSON_parse_def)
  qed
qed

lemma upload_extracts_object:
  assumes "CHR ''{'' \<notin> set pre" and "CHR ''}'' \<notin> set post" and "filePath \<in> files"
    and "JSON_parse (CHR ''{'' # mid @ [CHR ''}'']) = Some v"
  shows "analyze_recipe_image_upload
           (Completion (Some (pre @ CHR ''{'' # mid @ CHR ''}'' # post))) files (Some filePath)
         = \<lparr>upload_reply = Response 200 v, upload_model_calls = 1,
            uploads = files - {filePath}\<rparr>"
  using assms(3,4) match_braces_wrapped [OF assms(1,2), of mid]
  by (simp add: analyze_recipe_image_upload_def)

lemma inspire_rejects_prose:
  assumes "\<not> falsy (map_of body ''prompt'')" and "trim content = c # cs"
    and "\<not> begins_json c"
  shows "inspire_recipes (Completion (Some content)) body
         = (if to_string_ok (the (map_of body ''prompt''))
            then \<lparr>reply = Response 500 (err ''Failed to parse AI response.''), model_calls = 1\<rparr>
            else \<lparr>reply = Unhandled, model_calls = 0\<rparr>)"
proof -
  from trim_head [OF assms(2)] json_ws_space have "\<not> json_ws c" by blast
  from JSON_parse_prose [OF this assms(3)] assms(2)
  have "JSON_parse (trim content) = None" by simp
  with assms(1) show ?thesis by (simp add: inspire_recipes_def)
qed

text \<open>
  C2, as the code has it. Only the upload variant of image extraction looks for the
  payload inside the text, and it takes the text from the first \<open>{\<close> to the last \<open>}\<close>:
  an object wrapped in prose that has no \<open>{\<close> before it and no \<open>}\<close> after it is
  extracted, parsed and returned. The ideation handler parses the whole trimmed
  completion: when that begins with a character no JSON text begins with, as prose
  does, the caller gets the parse failure. (A prompt that does not convert to a string
  makes the handler throw before the model is called; no completion exists then.)
\<close>

theorem C2_payload_in_prose:
  "(CHR ''{'' \<notin> set pre \<and> CHR ''}'' \<notin> set post \<and> filePath \<in> files \<and>
    JSON_parse (CHR ''{'' # mid @ [CHR ''}'']) = Some v \<longrightarrow>
      analyze_recipe_image_upload
        (Completion (Some (pre @ CHR ''{'' # mid @ CHR ''}'' # post))) files (Some filePath)
      = \<lparr>upload_reply = Response 200 v, upload_model_calls = 1,
         uploads = files - {filePath}\<rparr>) \<and>
   (\<not> falsy (map_of body ''prompt'') \<and> trim content = c # cs \<and> \<not> begins_json c \<longrightarrow>
      inspire_recipes (Completion (Some content)) body
      = (if to_string_ok (the (map_of body ''prompt''))
         then \<lparr>reply = Response 500 (err ''Failed to parse AI response.''), model_calls = 1\<rparr>
         else \<lparr>reply = Unhandled, model_calls = 0\<rparr>))"
  using upload_extracts_object inspire_rejects_prose by blast

theorem C2_payload_in_prose_witness:
  \<open>(CHR ''{'' \<notin> set ''Here it is: '' \<and> CHR ''}'' \<notin> set '' Enjoy!'' \<and>
    ''uploads/f1'' \<in> {''uploads/f1''} \<and>
    JSON_parse (CHR ''{'' # ''"title": "Toast"'' @ [CHR ''}''])
      = Some (JObject [(''title'', JString ''Toast'')]) \<and>
    analyze_recipe_image_upload
      (Completion (Some (''Here it is: '' @ CHR ''{'' # ''"title": "Toast"'' @ CHR ''}'' # '' Enjoy!'')))
      {''uploads/f1''} (Some ''uploads/f1'')
    = \<lparr>upload_reply = Response 200 (JObject [(''title'', JString ''Toast'')]),
       upload_model_calls = 1, uploads = {''uploads/f1''} - {''uploads/f1''}\<rparr>) \<and>
   (\<not> falsy (map_of [(''prompt'', JString ''toast'')] ''prompt'') \<and>
    trim ''Here are some ideas: [1]'' = CHR ''H'' # ''ere are some ideas: [1]'' \<and>
    \<not> begins_json CHR ''H'' \<and>
    to_string_ok (the (map_of [(''prompt'', JString ''toast'')] ''prompt'')) \<and>
    inspire_recipes (Completion (Some ''Here are some ideas: [1]''))
      [(''prompt'', JString ''toast'')]
    = \<lparr>reply = Response 500 (err ''Failed to parse AI response.''), model_calls = 1\<rparr>)\<close>
proof -
  have h1: "CHR ''{'' \<notin> set ''Here it is: ''" by simp
  have h2: "CHR ''}'' \<notin> set '' Enjoy!''" by simp
  have h3: "''uploads/f1'' \<in> {''uploads/f1''}" by simp
  have h4: \<open>JSON_parse (CHR ''{'' # ''"title": "Toast"'' @ [CHR ''}''])
             = Some (JObject [(''title'', JString ''Toast'')])\<close>
    by code_simp
  have h5: "\<not> falsy (map_of [(''prompt'', JString ''toast'')] ''prompt'')" by simp
  have h6: "trim ''Here are some ideas: [1]'' = CHR ''H'' # ''ere are some ideas: [1]''"
    by code_simp
  have h7: "\<not> begins_json CHR ''H''" by code_simp
  have h8: "to_string_ok (the (map_of [(''prompt'', JString ''toast'')] ''prompt''))" by simp
  from C2_payload_in_prose
         [where pre = "''Here it is: ''" and post = "'' Enjoy!''" and filePath = "''uploads/f1''"
            and files = "{''uploads/f1''}" and mid = \<open>''"title": "Toast"''\<close>
            and v = "JObject [(''title'', JString ''Toast'')]"
            and body = "[(''prompt'', JString ''toast'')]"
            and content = "''Here are some ideas: [1]''" and c = "CHR ''H''"
            and cs = "''ere are some ideas: [1]''"]
       h1 h2 h3 h4 h5 h6 h7
  have r1: \<open>analyze_recipe_image_upload
      (Completion (Some (''Here it is: '' @ CHR ''{'' # ''"title": "Toast"'' @ CHR ''}'' # '' Enjoy!'')))
      {''uploads/f1''} (Some ''uploads/f1'')
    = \<lparr>upload_reply = Response 200 (JObject [(''title'', JString ''Toast'')]),
       upload_model_calls = 1, uploads = {''uploads/f1''} - {''uploads/f1''}\<rparr>\<close>
    and r2: "inspire_recipes (Completion (Some ''Here are some ideas: [1]''))
      [(''prompt'', JString ''toast'')]
    = (if to_string_ok (the (map_of [(''prompt'', JString ''toast'')] ''prompt''))
       then \<lparr>reply = Response 500 (err ''Failed to parse AI response.''), model_calls = 1\<rparr>
       else \<lparr>reply = Unhandled, model_calls = 0\<rparr>)"
    by blast+
  from r2 h8
  have r3: "inspire_recipes (Completion (Some ''Here are some ideas: [1]''))
      [(''prompt'', JString ''toast'')]
    = \<lparr>reply = Response 500 (err ''Failed to parse AI response.''), model_calls = 1\<rparr>"
    by (simp only: if_True)
  from h1 h2 h3 h4 h5 h6 h7 h8 r1 r3 show ?thesis by blast
qed

text \<open>
  C2 as stated fails on the scenario of the specification: the ideation handler answers
  a completion of the form \<open>Here are some ideas:\<close>, a line break and a JSON array with
  the parse failure.
\<close>

theorem C2_ideation_prose_counterexample:
  \<open>inspire_recipes
     (Completion (Some (''Here are some ideas:'' @ [CHR 0x0A] @ ''[{"title": "Toast"}]'')))
     [(''prompt'', JString ''toast'')]
   = \<lparr>reply = Response 500 (err ''Failed to parse AI response.''), model_calls = 1\<rparr>\<close>
  by code_simp

subsection \<open>Missing input\<close>

lemma ask_ai_chef_fails_fast:
  assumes "map_of body ''question'' = None \<or> map_of body ''recipe'' = None"
  shows "ask_ai_chef m body
         = \<lparr>reply = Response 400 (err ''Question and recipe are required.''), model_calls = 0\<rparr>"
  using assms by (auto simp: ask_ai_chef_def Let_def)

lemma inspire_recipes_fails_fast:
  assumes "map_of body ''prompt'' = None"
  shows "inspire_recipes m body
         = \<lparr>reply = Response 400 (err ''Prompt is required.''), model_calls = 0\<rparr>"
  using assms by (simp add: inspire_recipes_def)

lemma analyze_inline_fails_fast:
  assumes "map_of body ''image'' = None"
  shows "analyze_recipe_image_inline m body
         = \<lparr>reply = Response 400 (err ''Image data is required.''), model_calls = 0\<rparr>"
  using assms by (simp add: analyze_recipe_image_inline_def)

text \<open>
  C5 at the request it fails on. The upload variant of image extraction has no check
  for a missing file: \<open>req.file.path\<close> throws inside the \<open>try\<close> block, and the caller gets
  the 500 response of a failed analysis, not the 400 response the question, ideation
  and inline handlers give for a missing input. No call to the model is made.
\<close>

theorem C5_upload_without_file:
  "analyze_recipe_image_upload m files None
   = \<lparr>upload_reply = Response 500 (err ''Failed to analyze image.''),
      upload_model_calls = 0, uploads = files\<rparr>"
  by (simp add: analyze_recipe_image_upload_def analyze_failed_def)

subsection \<open>The uploaded file\<close>

text \<open>
  C9 at the requests it fails on. \<open>fs.unlinkSync\<close> is reached only after a successful
  parse: when the completion holds no JSON object the inner \<open>catch\<close> returns first, and
  when the model call is rejected the outer \<open>catch\<close> answers; in both cases the uploaded
  file stays under \<open>uploads/\<close>. After a success it is gone.
\<close>

theorem C9_upload_left_behind:
  \<open>analyze_recipe_image_upload (Completion (Some ''Sorry, I cannot read this image.''))
     {''uploads/f1''} (Some ''uploads/f1'')
   = \<lparr>upload_reply = Response 500 (err ''Failed to parse AI response.''),
      upload_model_calls = 1, uploads = {''uploads/f1''}\<rparr> \<and>
   analyze_recipe_image_upload Rejected {''uploads/f1''} (Some ''uploads/f1'')
   = \<lparr>upload_reply = Response 500 (err ''Failed to analyze image.''),
      upload_model_calls = 1, uploads = {''uploads/f1''}\<rparr> \<and>
   analyze_recipe_image_upload (Completion (Some ''{"title": "Toast"}''))
     {''uploads/f1''} (Some ''uploads/f1'')
   = \<lparr>upload_reply = Response 200 (JObject [(''title'', JString ''Toast'')]),
      upload_model_calls = 1, uploads = {}\<rparr>\<close>
  by code_simp

section \<open>The store handlers\<close>

subsection \<open>Favoriting twice\<close>

lemma favorite_recipe_accepted:
  assumes "map_of body ''user_id'' = Some u" and "map_of body ''recipe_id'' = Some r"
    and "\<not> falsy (Some u)" and "\<not> falsy (Some r)"
  shows "favorite_recipe StoreOk s body
         = (Response 200 (success JNull),
            s\<lparr>favorites := favorites s @ [\<lparr>fav_user_id = u, fav_recipe_id = r\<rparr>]\<rparr>)"
  using assms by (simp add: favorite_recipe_def)

lemma favorite_recipe_refused:
  assumes "map_of body ''user_id'' = Some u" and "map_of body ''recipe_id'' = Some r"
    and "\<not> falsy (Some u)" and "\<not> falsy (Some r)"
  shows "favorite_recipe (StoreError e) s body
         = (Response 500 (err ''Failed to favorite recipe.''), s)"
  using assms by (simp add: favorite_recipe_def)

lemma pair_rows_insert:
  "pair_rows (s\<lparr>favorites := favorites s @ [\<lparr>fav_user_id = u, fav_recipe_id = r\<rparr>]\<rparr>) u r
   = pair_rows s u r @ [\<lparr>fav_user_id = u, fav_recipe_id = r\<rparr>]"
  by (simp add: pair_rows_def is_pair_def)

lemma favorite_recipe_check_rows:
  assumes "map_of body ''user_id'' = Some u" and "map_of body ''recipe_id'' = Some r"
    and "\<not> falsy (Some u)" and "\<not> falsy (Some r)"
  shows "favorite_recipe_check StoreOk s body
         = (case pair_rows s u r of
              [] \<Rightarrow> Response 200 (JObject [(''isFavorited'', JBool False)])
            | [f] \<Rightarrow> Response 200 (JObject [(''isFavorited'', JBool True)])
            | f # g # fs \<Rightarrow> Response 500 (err ''Failed to check favorite status.''))"
  using assms by (simp add: favorite_recipe_check_def pair_rows_def)

text \<open>
  C3, as the code has it. The handler inserts a row on every call and leaves the guard
  against a second row to the store. When the store refuses the second insert, as a
  uniqueness constraint on the pair does, the second call answers 500, one row exists
  and the check answers true. When the store accepts both inserts, two rows exist and
  the check, whose \<open>maybeSingle()\<close> refuses several rows, answers 500.
\<close>

theorem C3_favorite_twice:
  assumes "map_of body ''user_id'' = Some u" and "map_of body ''recipe_id'' = Some r"
    and "\<not> falsy (Some u)" and "\<not> falsy (Some r)"
    and "pair_rows s u r = []"
  shows "length (pair_rows
           (snd (favorite_recipe (StoreError e) (snd (favorite_recipe StoreOk s body)) body))
           u r) = 1 \<and>
         favorite_recipe_check StoreOk
           (snd (favorite_recipe (StoreError e) (snd (favorite_recipe StoreOk s body)) body))
           body
         = Response 200 (JObject [(''isFavorited'', JBool True)]) \<and>
         fst (favorite_recipe (StoreError e) (snd (favorite_recipe StoreOk s body)) body)
         = Response 500 (err ''Failed to favorite recipe.'') \<and>
         length (pair_rows
           (snd (favorite_recipe StoreOk (snd (favorite_recipe StoreOk s body)) body))
           u r) = 2 \<and>
         favorite_recipe_check StoreOk
           (snd (favorite_recipe StoreOk (snd (favorite_recipe StoreOk s body)) body))
           body
         = Response 500 (err ''Failed to check favorite status.'')"
proof -
  let ?f = "\<lparr>fav_user_id = u, fav_recipe_id = r\<rparr>"
  let ?s1 = "s\<lparr>favorites := favorites s @ [?f]\<rparr>"
  let ?s2 = "?s1\<lparr>favorites := favorites ?s1 @ [?f]\<rparr>"
  have one: "pair_rows ?s1 u r = [?f]"
    using pair_rows_insert [of s u r] assms(5) by simp
  have two: "pair_rows ?s2 u r = [?f, ?f]"
    using pair_rows_insert [of ?s1 u r] one by simp
  have a1: "snd (favorite_recipe StoreOk s body) = ?s1"
    by (simp add: favorite_recipe_accepted [OF assms(1-4)])
  have a2: "snd (favorite_recipe (StoreError e) ?s1 body) = ?s1"
    by (simp add: favorite_recipe_refused [OF assms(1-4)])
  have a3: "snd (favorite_recipe StoreOk ?s1 body) = ?s2"
    by (simp add: favorite_recipe_accepted [OF assms(1-4)])
  have a4: "fst (favorite_recipe (StoreError e) ?s1 body)
            = Response 500 (err ''Failed to favorite recipe.'')"
    by (simp add: favorite_recipe_refused [OF assms(1-4)])
  show ?thesis
    unfolding a1 a2 a3 a4 favorite_recipe_check_rows [OF assms(1-4)] one two
    by simp
qed

theorem C3_favorite_twice_witness:
  "map_of [(''user_id'', JString ''u1''), (''recipe_id'', JString ''r1'')] ''user_id''
     = Some (JString ''u1'') \<and>
   \<not> falsy (Some (JString ''u1'')) \<and> \<not> falsy (Some (JString ''r1'')) \<and>
   pair_rows \<lparr>recipes = [], favorites = []\<rparr> (JString ''u1'') (JString ''r1'') = [] \<and>
   length (pair_rows
     (snd (favorite_recipe (StoreError ''duplicate key'')
        (snd (favorite_recipe StoreOk \<lparr>recipes = [], favorites = []\<rparr>
           [(''user_id'', JString ''u1''), (''recipe_id'', JString ''r1'')]))
        [(''user_id'', JString ''u1''), (''recipe_id'', JString ''r1'')]))
     (JString ''u1'') (JString ''r1'')) = 1 \<and>
   favorite_recipe_check StoreOk
     (snd (favorite_recipe (StoreError ''duplicate key'')
        (snd (favorite_recipe StoreOk \<lparr>recipes = [], favorites = []\<rparr>
           [(''user_id'', JString ''u1''), (''recipe_id'', JString ''r1'')]))
        [(''user_id'', JString ''u1''), (''recipe_id'', JString ''r1'')]))
     [(''user_id'', JString ''u1''), (''recipe_id'', JString ''r1'')]
   = Response 200 (JObject [(''isFavorited'', JBool True)])"
proof -
  let ?body = "[(''user_id'', JString ''u1''), (''recipe_id'', JString ''r1'')]"
  have h1: "map_of ?body ''user_id'' = Some (JString ''u1'')" by simp
  have h2: "map_of ?body ''recipe_id'' = Some (JString ''r1'')" by simp
  have h3: "\<not> falsy (Some (JString ''u1''))" by simp
  have h4: "\<not> falsy (Some (JString ''r1''))" by simp
  have h5: "pair_rows \<lparr>recipes = [], favorites = []\<rparr> (JString ''u1'') (JString ''r1'') = []"
    by (simp add: pair_rows_def)
  from C3_favorite_twice [OF h1 h2 h3 h4 h5, of "''duplicate key''"] h1 h3 h4 h5
  show ?thesis by blast
qed

text \<open>
  C3 as stated fails when the store accepts both inserts: from the empty store, two
  calls leave two rows for the pair, and the check answers 500, not true.
\<close>

theorem C3_two_rows_counterexample:
  "length (pair_rows
     (snd (favorite_recipe StoreOk
        (snd (favorite_recipe StoreOk \<lparr>recipes = [], favorites = []\<rparr>
           [(''user_id'', JString ''u1''), (''recipe_id'', JString ''r1'')]))
        [(''user_id'', JString ''u1''), (''recipe_id'', JString ''r1'')]))
     (JString ''u1'') (JString ''r1'')) = 2 \<and>
   favorite_recipe_check StoreOk
     (snd (favorite_recipe StoreOk
        (snd (favorite_recipe StoreOk \<lparr>recipes = [], favorites = []\<rparr>
           [(''user_id'', JString ''u1''), (''recipe_id'', JString ''r1'')]))
        [(''user_id'', JString ''u1''), (''recipe_id'', JString ''r1'')]))
     [(''user_id'', JString ''u1''), (''recipe_id'', JString ''r1'')]
   = Response 500 (err ''Failed to check favorite status.'')"
  by code_simp

subsection \<open>Deleting a recipe\<close>

lemma delete_recipe_cases:
  assumes "delete_recipe db1 db2 s body = (resp, s')" and "map_of body ''id'' = Some i"
  shows "(resp = Response 400 (err ''Recipe id is required.'') \<and> s' = s) \<or>
         (resp = Response 500 (err ''Failed to delete recipe.'') \<and> s' = s) \<or>
         (resp = Response 500 (err ''Failed to delete recipe.'') \<and>
          s' = s\<lparr>favorites := filter (\<lambda>f. fav_recipe_id f \<noteq> i) (favorites s)\<rparr>) \<or>
         (resp = Response 200 (success (rows_json (filter (has_id i) (recipes s)))) \<and>
          s' = s\<lparr>favorites := filter (\<lambda>f. fav_recipe_id f \<noteq> i) (favorites s),
                 recipes := filter (\<lambda>r. \<not> has_id i r) (recipes s)\<rparr>)"
  using assms
  by (auto simp: delete_recipe_def Let_def split: if_splits store_reply.splits)

lemma delete_recipe_carried_out:
  assumes "map_of body ''id'' = Some i" and "\<not> falsy (Some i)"
  shows "delete_recipe StoreOk StoreOk s body
         = (Response 200 (success (rows_json (filter (has_id i) (recipes s)))),
            s\<lparr>favorites := filter (\<lambda>f. fav_recipe_id f \<noteq> i) (favorites s),
              recipes := filter (\<lambda>r. \<not> has_id i r) (recipes s)\<rparr>)"
  using assms by (simp add: delete_recipe_def Let_def)

lemma delete_recipe_second_refused:
  assumes "map_of body ''id'' = Some i" and "\<not> falsy (Some i)"
  shows "delete_recipe StoreOk (StoreError e) s body
         = (Response 500 (err ''Failed to delete recipe.''),
            s\<lparr>favorites := filter (\<lambda>f. fav_recipe_id f \<noteq> i) (favorites s)\<rparr>)"
  using assms by (simp add: delete_recipe_def Let_def)

lemma delete_recipe_first_refused:
  assumes "map_of body ''id'' = Some i" and "\<not> falsy (Some i)"
  shows "delete_recipe (StoreError e) db2 s body
         = (Response 500 (err ''Failed to delete recipe.''), s)"
  using assms by (simp add: delete_recipe_def Let_def)

lemma delete_recipe_outcomes:
  assumes "delete_recipe db1 db2 s body = (resp, s')" and "map_of body ''id'' = Some i"
  shows "(\<forall>b. resp = Response 200 b \<longrightarrow>
            (\<forall>f \<in> set (favorites s'). fav_recipe_id f \<noteq> i) \<and>
            (\<forall>r \<in> set (recipes s'). \<not> has_id i r)) \<and>
         (recipes s' \<noteq> recipes s \<longrightarrow> (\<forall>f \<in> set (favorites s'). fav_recipe_id f \<noteq> i))"
  using delete_recipe_cases [OF assms] by (auto simp: err_def)

text \<open>
  C4. For a request with a truthy id \<open>i\<close>: when the store carries out both requests,
  the handler answers 200 with the deleted rows, and the store has lost exactly the
  favorites whose \<open>recipe_id\<close> is \<open>i\<close> and the recipes whose \<open>id\<close> is \<open>i\<close>, so that no
  favorite references the id and no recipe has it. The favorites go first: when the
  store carries out the first request and refuses the second, the handler answers 500,
  the favorites of \<open>i\<close> are gone and the recipes are as before; when it refuses the
  first, nothing has changed. In whatever way the handler ends, a 200 response means
  that no favorite references the id and no recipe has it, and the recipes differ from
  before only when the favorites that reference the id are gone.
\<close>

theorem C4_delete_removes_favorites:
  assumes "map_of body ''id'' = Some i" and "\<not> falsy (Some i)"
  shows "delete_recipe StoreOk StoreOk s body
         = (Response 200 (success (rows_json (filter (has_id i) (recipes s)))),
            s\<lparr>favorites := filter (\<lambda>f. fav_recipe_id f \<noteq> i) (favorites s),
              recipes := filter (\<lambda>r. \<not> has_id i r) (recipes s)\<rparr>) \<and>
         (\<forall>f \<in> set (favorites (snd (delete_recipe StoreOk StoreOk s body))).
            fav_recipe_id f \<noteq> i) \<and>
         (\<forall>r \<in> set (recipes (snd (delete_recipe StoreOk StoreOk s body))). \<not> has_id i r) \<and>
         delete_recipe StoreOk (StoreError e) s body
         = (Response 500 (err ''Failed to delete recipe.''),
            s\<lparr>favorites := filter (\<lambda>f. fav_recipe_id f \<noteq> i) (favorites s)\<rparr>) \<and>
         delete_recipe (StoreError e) db2 s body
         = (Response 500 (err ''Failed to delete recipe.''), s) \<and>
         (\<forall>db1 db2 resp s'. delete_recipe db1 db2 s body = (resp, s') \<longrightarrow>
            (\<forall>b. resp = Response 200 b \<longrightarrow>
               (\<forall>f \<in> set (favorites s'). fav_recipe_id f \<noteq> i) \<and>
               (\<forall>r \<in> set (recipes s'). \<not> has_id i r)) \<and>
            (recipes s' \<noteq> recipes s \<longrightarrow>
               (\<forall>f \<in> set (favorites s'). fav_recipe_id f \<noteq> i)))"
proof -
  note ok = delete_recipe_carried_out [OF assms, of s]
  have a: "\<forall>f \<in> set (favorites (snd (delete_recipe StoreOk StoreOk s body))).
             fav_recipe_id f \<noteq> i"
    by (simp add: ok)
  have b: "\<forall>r \<in> set (recipes (snd (delete_recipe StoreOk StoreOk s body))). \<not> has_id i r"
    by (simp add: ok)
  have c: "\<forall>db1 db2 resp s'. delete_recipe db1 db2 s body = (resp, s') \<longrightarrow>
            (\<forall>b. resp = Response 200 b \<longrightarrow>
               (\<forall>f \<in> set (favorites s'). fav_recipe_id f \<noteq> i) \<and>
               (\<forall>r \<in> set (recipes s'). \<not> has_id i r)) \<and>
            (recipes s' \<noteq> recipes s \<longrightarrow>
               (\<forall>f \<in> set (favorites s'). fav_recipe_id f \<noteq> i))"
    using delete_recipe_outcomes [OF _ assms(1)] by blast
  from ok a b c delete_recipe_second_refused [OF assms, of e s]
       delete_recipe_first_refused [OF assms, of e db2 s]
  show ?thesis by blast
qed

theorem C4_delete_removes_favorites_witness:
  "map_of [(''id'', JString ''r1'')] ''id'' = Some (JString ''r1'') \<and>
   \<not> falsy (Some (JString ''r1'')) \<and>
   delete_recipe StoreOk StoreOk
     \<lparr>recipes = [[(''id'', JString ''r1''), (''user_id'', JString ''u1''),
                  (''title'', JString ''Toast'')],
                 [(''id'', JString ''r2''), (''user_id'', JString ''u2''),
                  (''title'', JString ''Soup'')]],
      favorites = [\<lparr>fav_user_id = JString ''u1'', fav_recipe_id = JString ''r1''\<rparr>,
                   \<lparr>fav_user_id = JString ''u2'', fav_recipe_id = JString ''r1''\<rparr>,
                   \<lparr>fav_user_id = JString ''u1'', fav_recipe_id = JString ''r2''\<rparr>]\<rparr>
     [(''id'', JString ''r1'')]
   = (Response 200
        (success (rows_json [[(''id'', JString ''r1''), (''user_id'', JString ''u1''),
                              (''title'', JString ''Toast'')]])),
      \<lparr>recipes = [[(''id'', JString ''r2''), (''user_id'', JString ''u2''),
                   (''title'', JString ''Soup'')]],
       favorites = [\<lparr>fav_user_id = JString ''u1'', fav_recipe_id = JString ''r2''\<rparr>]\<rparr>) \<and>
   delete_recipe StoreOk (StoreError ''timeout'')
     \<lparr>recipes = [[(''id'', JString ''r1''), (''user_id'', JString ''u1''),
                  (''title'', JString ''Toast'')],
                 [(''id'', JString ''r2''), (''user_id'', JString ''u2''),
                  (''title'', JString ''Soup'')]],
      favorites = [\<lparr>fav_user_id = JString ''u1'', fav_recipe_id = JString ''r1''\<rparr>,
                   \<lparr>fav_user_id = JString ''u2'', fav_recipe_id = JString ''r1''\<rparr>,
                   \<lparr>fav_user_id = JString ''u1'', fav_recipe_id = JString ''r2''\<rparr>]\<rparr>
     [(''id'', JString ''r1'')]
   = (Response 500 (err ''Failed to delete recipe.''),
      \<lparr>recipes = [[(''id'', JString ''r1''), (''user_id'', JString ''u1''),
                   (''title'', JString ''Toast'')],
                  [(''id'', JString ''r2''), (''user_id'', JString ''u2''),
                   (''title'', JString ''Soup'')]],
       favorites = [\<lparr>fav_user_id = JString ''u1'', fav_recipe_id = JString ''r2''\<rparr>]\<rparr>)"
proof -
  let ?s = "\<lparr>recipes = [[(''id'', JString ''r1''), (''user_id'', JString ''u1''),
                  (''title'', JString ''Toast'')],
                 [(''id'', JString ''r2''), (''user_id'', JString ''u2''),
                  (''title'', JString ''Soup'')]],
      favorites = [\<lparr>fav_user_id = JString ''u1'', fav_recipe_id = JString ''r1''\<rparr>,
                   \<lparr>fav_user_id = JString ''u2'', fav_recipe_id = JString ''r1''\<rparr>,
                   \<lparr>fav_user_id = JString ''u1'', fav_recipe_id = JString ''r2''\<rparr>]\<rparr>"
  have h1: "map_of [(''id'', JString ''r1'')] ''id'' = Some (JString ''r1'')" by simp
  have h2: "\<not> falsy (Some (JString ''r1''))" by simp
  note t = C4_delete_removes_favorites [OF h1 h2, of ?s "''timeout''"]
  from t have r1: "delete_recipe StoreOk StoreOk ?s [(''id'', JString ''r1'')]
     = (Response 200
          (success (rows_json (filter (has_id (JString ''r1'')) (recipes ?s)))),
        ?s\<lparr>favorites := filter (\<lambda>f. fav_recipe_id f \<noteq> JString ''r1'') (favorites ?s),
            recipes := filter (\<lambda>r. \<not> has_id (JString ''r1'') r) (recipes ?s)\<rparr>)"
    by blast
  from t have r2: "delete_recipe StoreOk (StoreError ''timeout'') ?s [(''id'', JString ''r1'')]
     = (Response 500 (err ''Failed to delete recipe.''),
        ?s\<lparr>favorites := filter (\<lambda>f. fav_recipe_id f \<noteq> JString ''r1'') (favorites ?s)\<rparr>)"
    by blast
  from r1 r2 h1 h2 show ?thesis by (simp add: has_id_def)
qed

text \<open>
  C10, as the code has it. For an id that no recipe has, and with both requests carried
  out by the store, the handler answers success with no rows and leaves the recipes as
  they are. The first request deletes the favorites that reference the id whether or
  not a recipe has it: the favorites are unchanged when none references the id.
\<close>

theorem C10_delete_unknown_id:
  assumes "map_of body ''id'' = Some i" and "\<not> falsy (Some i)"
    and "\<forall>r \<in> set (recipes s). \<not> has_id i r"
  shows "delete_recipe StoreOk StoreOk s body
         = (Response 200 (success (JArray [])),
            s\<lparr>favorites := filter (\<lambda>f. fav_recipe_id f \<noteq> i) (favorites s)\<rparr>) \<and>
         ((\<forall>f \<in> set (favorites s). fav_recipe_id f \<noteq> i) \<longrightarrow>
            delete_recipe StoreOk StoreOk s body = (Response 200 (success (JArray [])), s))"
proof -
  from assms(3) have none: "filter (has_id i) (recipes s) = []"
    by (simp add: filter_empty_conv)
  from assms(3) have all: "filter (\<lambda>r. \<not> has_id i r) (recipes s) = recipes s"
    by (simp add: filter_id_conv)
  have d: "delete_recipe StoreOk StoreOk s body
           = (Response 200 (success (JArray [])),
              s\<lparr>favorites := filter (\<lambda>f. fav_recipe_id f \<noteq> i) (favorites s)\<rparr>)"
    using assms(1,2) by (simp add: delete_recipe_def Let_def none all rows_json_def)
  have "filter (\<lambda>f. fav_recipe_id f \<noteq> i) (favorites s) = favorites s"
    if "\<forall>f \<in> set (favorites s). fav_recipe_id f \<noteq> i"
    using that by (simp add: filter_id_conv)
  with d show ?thesis by simp
qed

theorem C10_delete_unknown_id_witness:
  "map_of [(''id'', JString ''r9'')] ''id'' = Some (JString ''r9'') \<and>
   \<not> falsy (Some (JString ''r9'')) \<and>
   list_all (\<lambda>r. \<not> has_id (JString ''r9'') r)
     (recipes \<lparr>recipes = [[(''id'', JString ''r1''), (''title'', JString ''Toast'')]],
        favorites = [\<lparr>fav_user_id = JString ''u1'', fav_recipe_id = JString ''r1''\<rparr>]\<rparr>) \<and>
   list_all (\<lambda>f. fav_recipe_id f \<noteq> JString ''r9'')
     (favorites \<lparr>recipes = [[(''id'', JString ''r1''), (''title'', JString ''Toast'')]],
        favorites = [\<lparr>fav_user_id = JString ''u1'', fav_recipe_id = JString ''r1''\<rparr>]\<rparr>) \<and>
   delete_recipe StoreOk StoreOk
     \<lparr>recipes = [[(''id'', JString ''r1''), (''title'', JString ''Toast'')]],
      favorites = [\<lparr>fav_user_id = JString ''u1'', fav_recipe_id = JString ''r1''\<rparr>]\<rparr>
     [(''id'', JString ''r9'')]
   = (Response 200 (success (JArray [])),
      \<lparr>recipes = [[(''id'', JString ''r1''), (''title'', JString ''Toast'')]],
       favorites = [\<lparr>fav_user_id = JString ''u1'', fav_recipe_id = JString ''r1''\<rparr>]\<rparr>)"
proof -
  let ?s = "\<lparr>recipes = [[(''id'', JString ''r1''), (''title'', JString ''Toast'')]],
      favorites = [\<lparr>fav_user_id = JString ''u1'', fav_recipe_id = JString ''r1''\<rparr>]\<rparr>"
  have h1: "map_of [(''id'', JString ''r9'')] ''id'' = Some (JString ''r9'')" by simp
  have h2: "\<not> falsy (Some (JString ''r9''))" by simp
  have h3: "\<forall>r \<in> set (recipes ?s). \<not> has_id (JString ''r9'') r"
    by (simp add: has_id_def)
  have h4: "\<forall>f \<in> set (favorites ?s). fav_recipe_id f \<noteq> JString ''r9''" by simp
  from C10_delete_unknown_id [OF h1 h2 h3] h4
  have "delete_recipe StoreOk StoreOk ?s [(''id'', JString ''r9'')]
        = (Response 200 (success (JArray [])), ?s)" by blast
  moreover from h3 have "list_all (\<lambda>r. \<not> has_id (JString ''r9'') r) (recipes ?s)"
    by (simp only: list_all_iff)
  moreover from h4 have "list_all (\<lambda>f. fav_recipe_id f \<noteq> JString ''r9'') (favorites ?s)"
    by (simp only: list_all_iff)
  ultimately show ?thesis using h1 h2 by blast
qed

text \<open>
  C10 as stated fails when a favorite references the id. From the empty store, a
  favorite for a recipe id that no recipe has is inserted as it comes; deleting that id
  then answers success and removes the favorite: the favorites relation has changed.
\<close>

theorem C10_favorites_changed_counterexample:
  "snd (favorite_recipe StoreOk \<lparr>recipes = [], favorites = []\<rparr>
          [(''user_id'', JString ''u1''), (''recipe_id'', JString ''r9'')])
   = \<lparr>recipes = [],
      favorites = [\<lparr>fav_user_id = JString ''u1'', fav_recipe_id = JString ''r9''\<rparr>]\<rparr> \<and>
   delete_recipe StoreOk StoreOk
     \<lparr>recipes = [],
      favorites = [\<lparr>fav_user_id = JString ''u1'', fav_recipe_id = JString ''r9''\<rparr>]\<rparr>
     [(''id'', JString ''r9'')]
   = (Response 200 (success (JArray [])), \<lparr>recipes = [], favorites = []\<rparr>)"
  by (simp add: favorite_recipe_def delete_recipe_def has_id_def rows_json_def)

subsection \<open>Updating a recipe\<close>

lemma map_of_fieldsToUpdate:
  "map_of (fieldsToUpdate body) c = (if c = ''id'' then None else map_of body c)"
  unfolding fieldsToUpdate_def by (induction body) auto

lemma update_row_lookup:
  "map_of (update_row i (fieldsToUpdate body) r) c
   = (if has_id i r \<and> c \<noteq> ''id'' \<and> map_of body c \<noteq> None then map_of body c
      else map_of r c)"
  by (auto simp: update_row_def AList.merge_conv' map_add_def map_of_fieldsToUpdate
           split: option.splits)

lemma update_row_other: "\<not> has_id i r \<Longrightarrow> update_row i written r = r"
  by (simp add: update_row_def)

lemma update_recipe_cases:
  assumes "update_recipe db s body = (resp, s')"
  shows "(\<not> (db = StoreOk \<and> \<not> falsy (map_of body ''id'')) \<and> s' = s) \<or>
         (db = StoreOk \<and> \<not> falsy (map_of body ''id'') \<and>
          s' = s\<lparr>recipes :=
                   map (update_row (the (map_of body ''id'')) (fieldsToUpdate body))
                     (recipes s)\<rparr>)"
  using assms
  by (auto simp: update_recipe_def Let_def split: if_splits store_reply.splits)

text \<open>
  C7. An update leaves the favorites and the number of recipes as they are. In every
  row the \<open>id\<close> is the same after the update as before, a column whose key the body
  does not have keeps its value, and a column either keeps its value or takes the
  value the body gives for its key. When the store carries the update out, the rows
  whose \<open>id\<close> is the one of the body take every value of the body but \<open>id\<close>, and the
  other rows are unchanged.
\<close>

theorem C7_update_partial_merge:
  assumes "update_recipe db s body = (resp, s')"
  shows "favorites s' = favorites s \<and> length (recipes s') = length (recipes s) \<and>
         (\<forall>k < length (recipes s).
            map_of (recipes s' ! k) ''id'' = map_of (recipes s ! k) ''id'' \<and>
            (\<forall>c. map_of body c = None \<longrightarrow>
                   map_of (recipes s' ! k) c = map_of (recipes s ! k) c) \<and>
            (\<forall>c. map_of (recipes s' ! k) c = map_of (recipes s ! k) c \<or>
                  map_of (recipes s' ! k) c = map_of body c)) \<and>
         (db = StoreOk \<and> \<not> falsy (map_of body ''id'') \<longrightarrow>
            (\<forall>k < length (recipes s).
               if has_id (the (map_of body ''id'')) (recipes s ! k)
               then \<forall>c. c \<noteq> ''id'' \<longrightarrow> map_of body c \<noteq> None \<longrightarrow>
                          map_of (recipes s' ! k) c = map_of body c
               else recipes s' ! k = recipes s ! k))"
proof -
  from update_recipe_cases [OF assms] show ?thesis
  proof
    assume "\<not> (db = StoreOk \<and> \<not> falsy (map_of body ''id'')) \<and> s' = s"
    then show ?thesis by auto
  next
    assume "db = StoreOk \<and> \<not> falsy (map_of body ''id'') \<and>
            s' = s\<lparr>recipes :=
                     map (update_row (the (map_of body ''id'')) (fieldsToUpdate body))
                       (recipes s)\<rparr>"
    then show ?thesis
      by (simp add: update_row_lookup update_row_other)
  qed
qed

theorem C7_update_partial_merge_witness:
  "update_recipe StoreOk
     \<lparr>recipes = [[(''id'', JString ''r1''), (''user_id'', JString ''u1''),
                  (''title'', JString ''Toast'')],
                 [(''id'', JString ''r2''), (''user_id'', JString ''u1''),
                  (''title'', JString ''Soup'')]],
      favorites = []\<rparr>
     [(''id'', JString ''r1''), (''title'', JString ''French Toast'')]
   = (Response 200
        (success (rows_json [[(''id'', JString ''r1''), (''user_id'', JString ''u1''),
                              (''title'', JString ''French Toast'')]])),
      \<lparr>recipes = [[(''id'', JString ''r1''), (''user_id'', JString ''u1''),
                   (''title'', JString ''French Toast'')],
                  [(''id'', JString ''r2''), (''user_id'', JString ''u1''),
                   (''title'', JString ''Soup'')]],
       favorites = []\<rparr>) \<and>
   length (recipes
     \<lparr>recipes = [[(''id'', JString ''r1''), (''user_id'', JString ''u1''),
                  (''title'', JString ''French Toast'')],
                 [(''id'', JString ''r2''), (''user_id'', JString ''u1''),
                  (''title'', JString ''Soup'')]],
      favorites = []\<rparr>)
   = length (recipes
     \<lparr>recipes = [[(''id'', JString ''r1''), (''user_id'', JString ''u1''),
                  (''title'', JString ''Toast'')],
                 [(''id'', JString ''r2''), (''user_id'', JString ''u1''),
                  (''title'', JString ''Soup'')]],
      favorites = []\<rparr>)"
proof -
  let ?s = "\<lparr>recipes = [[(''id'', JString ''r1''), (''user_id'', JString ''u1''),
                  (''title'', JString ''Toast'')],
                 [(''id'', JString ''r2''), (''user_id'', JString ''u1''),
                  (''title'', JString ''Soup'')]],
      favorites = []\<rparr>"
  let ?s' = "\<lparr>recipes = [[(''id'', JString ''r1''), (''user_id'', JString ''u1''),
                   (''title'', JString ''French Toast'')],
                  [(''id'', JString ''r2''), (''user_id'', JString ''u1''),
                   (''title'', JString ''Soup'')]],
       favorites = []\<rparr>"
  have h: "update_recipe StoreOk ?s [(''id'', JString ''r1''), (''title'', JString ''French Toast'')]
           = (Response 200
                (success (rows_json [[(''id'', JString ''r1''), (''user_id'', JString ''u1''),
                                      (''title'', JString ''French Toast'')]])),
              ?s')"
    by (simp add: update_recipe_def update_row_def has_id_def fieldsToUpdate_def)
  from C7_update_partial_merge [OF h]
  have "length (recipes ?s') = length (recipes ?s)" by blast
  with h show ?thesis by blast
qed

subsection \<open>The owner of a recipe\<close>

lemma update_row_id: "has_id i (update_row j (fieldsToUpdate body) r) = has_id i r"
  using update_row_lookup [of j body r "''id''"] by (simp add: has_id_def)

lemma update_row_owner:
  assumes "map_of body ''user_id'' = None"
  shows "map_of (update_row j (fieldsToUpdate body) r) ''user_id'' = map_of r ''user_id''"
  using assms by (simp add: update_row_lookup)

lemma update_keeps_owner:
  assumes "map_of body ''user_id'' = None"
    and "\<forall>r \<in> set (recipes s). has_id i r \<longrightarrow> map_of r ''user_id'' = u"
  shows "\<forall>r \<in> set (recipes (snd (update_recipe db s body))).
           has_id i r \<longrightarrow> map_of r ''user_id'' = u"
proof -
  have "update_recipe db s body
        = (fst (update_recipe db s body), snd (update_recipe db s body))" by simp
  from update_recipe_cases [OF this] show ?thesis
  proof
    assume "\<not> (db = StoreOk \<and> \<not> falsy (map_of body ''id'')) \<and>
            snd (update_recipe db s body) = s"
    with assms(2) show ?thesis by simp
  next
    assume "db = StoreOk \<and> \<not> falsy (map_of body ''id'') \<and>
            snd (update_recipe db s body)
            = s\<lparr>recipes :=
                  map (update_row (the (map_of body ''id'')) (fieldsToUpdate body))
                    (recipes s)\<rparr>"
    with assms(2) show ?thesis
      by (auto simp: update_row_id update_row_owner [OF assms(1)])
  qed
qed

lemma delete_keeps_rows:
  "set (recipes (snd (delete_recipe db1 db2 s body))) \<subseteq> set (recipes s)"
  by (auto simp: delete_recipe_def Let_def split: if_splits store_reply.splits)

lemma favorite_keeps_recipes: "recipes (snd (favorite_recipe db s body)) = recipes s"
  by (auto simp: favorite_recipe_def Let_def split: if_splits store_reply.splits)

lemma unfavorite_keeps_recipes: "recipes (snd (unfavorite_recipe db s body)) = recipes s"
  by (auto simp: unfavorite_recipe_def Let_def split: if_splits store_reply.splits)

lemma save_keeps_owner:
  assumes "\<not> saves_under i (SaveRecipe db defaults body)"
    and "\<forall>r \<in> set (recipes s). has_id i r \<longrightarrow> map_of r ''user_id'' = u"
  shows "\<forall>r \<in> set (recipes (snd (save_recipe db defaults s body))).
           has_id i r \<longrightarrow> map_of r ''user_id'' = u"
  using assms
  by (auto simp: save_recipe_def split: option.splits json.splits if_splits store_reply.splits)

lemma exec_keeps_owner:
  assumes "\<not> sets_owner c" and "\<not> saves_under i c"
    and "\<forall>r \<in> set (recipes s). has_id i r \<longrightarrow> map_of r ''user_id'' = u"
  shows "\<forall>r \<in> set (recipes (exec c s)). has_id i r \<longrightarrow> map_of r ''user_id'' = u"
proof (cases c)
  case (SaveRecipe db defaults body)
  with assms(2) save_keeps_owner [OF _ assms(3)] show ?thesis by simp
next
  case (UpdateRecipe db body)
  with assms(1) have "map_of body ''user_id'' = None" by simp
  from update_keeps_owner [OF this assms(3)] UpdateRecipe show ?thesis by simp
next
  case (DeleteRecipe db1 db2 body)
  with assms(3) delete_keeps_rows [of db1 db2 s body] show ?thesis by auto
next
  case (FavoriteRecipe db body)
  with assms(3) show ?thesis by (simp add: favorite_keeps_recipes)
next
  case (UnfavoriteRecipe db body)
  with assms(3) show ?thesis by (simp add: unfavorite_keeps_recipes)
qed

text \<open>
  C8, as the code has it. The update handler writes every key of the body but \<open>id\<close>,
  \<open>user_id\<close> included. Along any sequence of saves, updates, deletes, favorites and
  unfavorites in which no update has a \<open>user_id\<close> key in its body (and no save stores a
  new row under the id), the rows with id \<open>i\<close> keep the \<open>user_id\<close> they had.
\<close>

theorem C8_owner_kept_without_user_id_update:
  assumes "\<forall>c \<in> set calls. \<not> sets_owner c \<and> \<not> saves_under i c"
    and "\<forall>r \<in> set (recipes s). has_id i r \<longrightarrow> map_of r ''user_id'' = u"
  shows "\<forall>r \<in> set (recipes (run calls s)). has_id i r \<longrightarrow> map_of r ''user_id'' = u"
  using assms
proof (induction calls arbitrary: s)
  case Nil
  then show ?case by simp
next
  case (Cons c calls)
  from Cons.prems(1) have c: "\<not> sets_owner c" "\<not> saves_under i c"
    and rest: "\<forall>c \<in> set calls. \<not> sets_owner c \<and> \<not> saves_under i c"
    by simp_all
  from exec_keeps_owner [OF c Cons.prems(2)]
  have "\<forall>r \<in> set (recipes (exec c s)). has_id i r \<longrightarrow> map_of r ''user_id'' = u" .
  from Cons.IH [OF rest this] show ?case by simp
qed

theorem C8_owner_kept_without_user_id_update_witness:
  "list_all (\<lambda>c. \<not> sets_owner c \<and> \<not> saves_under (JString ''r1'') c)
     [UpdateRecipe StoreOk [(''id'', JString ''r1''), (''title'', JString ''French Toast'')],
      FavoriteRecipe StoreOk [(''user_id'', JString ''u2''), (''recipe_id'', JString ''r1'')],
      DeleteRecipe StoreOk StoreOk [(''id'', JString ''r2'')]] \<and>
   list_all (\<lambda>r. \<not> has_id (JString ''r1'') r \<or> map_of r ''user_id'' = Some (JString ''u1''))
     (recipes
        \<lparr>recipes = [[(''id'', JString ''r1''), (''user_id'', JString ''u1''),
                     (''title'', JString ''Toast'')]],
         favorites = []\<rparr>) \<and>
   list_all (\<lambda>r. \<not> has_id (JString ''r1'') r \<or> map_of r ''user_id'' = Some (JString ''u1''))
     (recipes
        (run
           [UpdateRecipe StoreOk [(''id'', JString ''r1''), (''title'', JString ''French Toast'')],
            FavoriteRecipe StoreOk [(''user_id'', JString ''u2''), (''recipe_id'', JString ''r1'')],
            DeleteRecipe StoreOk StoreOk [(''id'', JString ''r2'')]]
           \<lparr>recipes = [[(''id'', JString ''r1''), (''user_id'', JString ''u1''),
                        (''title'', JString ''Toast'')]],
            favorites = []\<rparr>)) \<and>
   recipes
     (run
        [UpdateRecipe StoreOk [(''id'', JString ''r1''), (''title'', JString ''French Toast'')],
         FavoriteRecipe StoreOk [(''user_id'', JString ''u2''), (''recipe_id'', JString ''r1'')],
         DeleteRecipe StoreOk StoreOk [(''id'', JString ''r2'')]]
        \<lparr>recipes = [[(''id'', JString ''r1''), (''user_id'', JString ''u1''),
                     (''title'', JString ''Toast'')]],
         favorites = []\<rparr>)
   = [[(''id'', JString ''r1''), (''user_id'', JString ''u1''),
       (''title'', JString ''French Toast'')]]"
proof -
  let ?calls =
    "[UpdateRecipe StoreOk [(''id'', JString ''r1''), (''title'', JString ''French Toast'')],
      FavoriteRecipe StoreOk [(''user_id'', JString ''u2''), (''recipe_id'', JString ''r1'')],
      DeleteRecipe StoreOk StoreOk [(''id'', JString ''r2'')]]"
  let ?s = "\<lparr>recipes = [[(''id'', JString ''r1''), (''user_id'', JString ''u1''),
                        (''title'', JString ''Toast'')]],
            favorites = []\<rparr>"
  have h1: "\<forall>c \<in> set ?calls. \<not> sets_owner c \<and> \<not> saves_under (JString ''r1'') c"
    by simp
  have h2: "\<forall>r \<in> set (recipes ?s).
              has_id (JString ''r1'') r \<longrightarrow> map_of r ''user_id'' = Some (JString ''u1'')"
    by simp
  from C8_owner_kept_without_user_id_update [OF h1 h2]
  have c: "\<forall>r \<in> set (recipes (run ?calls ?s)).
             has_id (JString ''r1'') r \<longrightarrow> map_of r ''user_id'' = Some (JString ''u1'')" .
  have e: "recipes (run ?calls ?s)
           = [[(''id'', JString ''r1''), (''user_id'', JString ''u1''),
               (''title'', JString ''French Toast'')]]"
    by (simp add: update_recipe_def favorite_recipe_def delete_recipe_def update_row_def
                  has_id_def fieldsToUpdate_def)
  have a1: "list_all (\<lambda>c. \<not> sets_owner c \<and> \<not> saves_under (JString ''r1'') c) ?calls"
    using h1 by (simp only: list_all_iff)
  have a2: "list_all (\<lambda>r. \<not> has_id (JString ''r1'') r \<or>
                          map_of r ''user_id'' = Some (JString ''u1'')) (recipes ?s)"
    using h2 unfolding list_all_iff by blast
  have a3: "list_all (\<lambda>r. \<not> has_id (JString ''r1'') r \<or>
                          map_of r ''user_id'' = Some (JString ''u1''))
              (recipes (run ?calls ?s))"
    using c unfolding list_all_iff by blast
  from a1 a2 a3 e show ?thesis by blast
qed

text \<open>
  C8 as stated fails: an update whose body names \<open>user_id\<close> changes the owner of the
  stored recipe.
\<close>

theorem C8_owner_changed_counterexample:
  "update_recipe StoreOk
     \<lparr>recipes = [[(''id'', JString ''r1''), (''user_id'', JString ''u1''),
                  (''title'', JString ''Toast'')]],
      favorites = []\<rparr>
     [(''id'', JString ''r1''), (''user_id'', JString ''u2'')]
   = (Response 200
        (success (rows_json [[(''id'', JString ''r1''), (''user_id'', JString ''u2''),
                              (''title'', JString ''Toast'')]])),
      \<lparr>recipes = [[(''id'', JString ''r1''), (''user_id'', JString ''u2''),
                   (''title'', JString ''Toast'')]],
       favorites = []\<rparr>)"
  by (simp add: update_recipe_def update_row_def has_id_def fieldsToUpdate_def)

subsection \<open>Searching the listings\<close>

text \<open>
  What the two listings have in common. A search term without wildcard characters
  selects, in the listing of the owner's recipes, the rows whose title contains it
  whatever the case, as \<open>includes\<close> does in the listing of the favorites; the tag
  filter keeps the rows whose tags share an element with the tags of the query; and the
  rows returned pass both filters.
\<close>

lemma strip_prefix_iff: "strip_prefix t u \<noteq> None \<longleftrightarrow> (\<exists>post. u = t @ post)"
proof (induction t u rule: strip_prefix.induct)
  case (1 s)
  then show ?case by simp
next
  case (2 p ps)
  then show ?case by simp
next
  case (3 p ps c cs)
  then show ?case by auto
qed

lemma js_includes_iff: "js_includes s t \<longleftrightarrow> (\<exists>pre post. s = pre @ t @ post)"
proof (induction s)
  case Nil
  then show ?case by (cases t) auto
next
  case (Cons c cs)
  show ?case
  proof
    assume "js_includes (c # cs) t"
    then consider "strip_prefix t (c # cs) \<noteq> None" | "js_includes cs t" by auto
    then show "\<exists>pre post. c # cs = pre @ t @ post"
    proof cases
      case 1
      with strip_prefix_iff obtain post where "c # cs = t @ post" by blast
      then have "c # cs = [] @ t @ post" by simp
      then show ?thesis by blast
    next
      case 2
      with Cons.IH obtain pre post where "cs = pre @ t @ post" by blast
      then have "c # cs = (c # pre) @ t @ post" by simp
      then show ?thesis by blast
    qed
  next
    assume "\<exists>pre post. c # cs = pre @ t @ post"
    then obtain pre post where e: "c # cs = pre @ t @ post" by blast
    show "js_includes (c # cs) t"
    proof (cases pre)
      case Nil
      with e have "c # cs = t @ post" by simp
      with strip_prefix_iff [of t "c # cs"] have "strip_prefix t (c # cs) \<noteq> None" by blast
      then show ?thesis by simp
    next
      case (Cons a as)
      with e have "cs = as @ t @ post" by simp
      with Cons.IH show ?thesis by auto
    qed
  qed
qed

lemma to_lower_no_wildcard: "\<not> wildcard c \<Longrightarrow> \<not> wildcard (to_lower c)"
proof -
  assume a: "\<not> wildcard c"
  have "\<not> wildcard (char_of (n + 32))"
    if "(65 \<le> n \<and> n \<le> 90) \<or> (192 \<le> n \<and> n \<le> 222)" for n :: nat
  proof
    assume "wildcard (char_of (n + 32))"
    then have "(of_char (char_of (n + 32)) :: nat) \<in> {37, 42, 95, 92}"
      unfolding wildcard_def by (elim disjE) simp_all
    then have "(n + 32) mod 256 \<in> {37, 42, 95, 92}" by (simp only: of_char_of)
    with that show False by auto
  qed
  with a show ?thesis by (auto simp: to_lower_def Let_def)
qed

lemma like_tokens_literal:
  "list_all (\<lambda>c. \<not> wildcard c) s \<Longrightarrow>
   like_tokens (s @ rest) = map_option ((@) (map Lit s)) (like_tokens rest)"
proof (induction s)
  case Nil
  then show ?case by (simp add: option.map_ident)
next
  case (Cons c cs)
  then show ?case
    by (cases "like_tokens rest") (auto simp: wildcard_def)
qed

lemma like_match_any: "like_match [AnyString] t"
  by (induction t) auto

lemma like_match_prefix:
  "like_match (map Lit s @ [AnyString]) t \<longleftrightarrow> strip_prefix s t \<noteq> None"
proof (induction s t rule: strip_prefix.induct)
  case (1 s)
  then show ?case by (simp add: like_match_any)
next
  case (2 p ps)
  then show ?case by simp
next
  case (3 p ps c cs)
  then show ?case by auto
qed

lemma like_match_contains:
  "like_match (AnyString # map Lit s @ [AnyString]) t \<longleftrightarrow> js_includes t s"
proof (induction t)
  case Nil
  have "like_match (map Lit s @ [AnyString]) [] \<longleftrightarrow> s = []"
    by (cases s) (simp_all add: like_match_any)
  then show ?case by simp
next
  case (Cons d ds)
  then show ?case by (simp add: like_match_prefix)
qed

lemma ilike_title_plain:
  assumes "list_all (\<lambda>c. \<not> wildcard c) search"
  shows "ilike_title search r
         = Some (case map_of r ''title'' of
                   Some (JString title) \<Rightarrow> js_includes (toLowerCase title) (toLowerCase search)
                 | _ \<Rightarrow> False)"
proof -
  from assms have "list_all (\<lambda>c. \<not> wildcard c) (toLowerCase search)"
    by (induction search) (simp_all add: toLowerCase_def to_lower_no_wildcard)
  from like_tokens_literal [OF this, of "''%''"]
  have "like_tokens (toLowerCase search @ ''%'') = Some (map Lit (toLowerCase search) @ [AnyString])"
    by simp
  moreover have "toLowerCase (''%'' @ search @ ''%'') = CHR ''%'' # toLowerCase search @ ''%''"
    by (simp add: toLowerCase_def to_lower_def)
  ultimately have "like_tokens (toLowerCase (''%'' @ search @ ''%''))
                   = Some (AnyString # map Lit (toLowerCase search) @ [AnyString])"
    by simp
  then show ?thesis
    by (simp add: ilike_title_def like_match_contains split: option.splits json.splits)
qed

lemma list_recipes_ok:
  assumes "list_recipes db s q = Response 200 (JObject [(''recipes'', JArray rs)])"
  shows "\<exists>rows. rs = map JObject rows \<and>
           (\<forall>r \<in> set rows. r \<in> set (recipes s) \<and>
              map_of r ''user_id'' = Some (JString (the (q_user_id q))) \<and>
              (given (q_search q) \<longrightarrow> ilike_title (the (q_search q)) r = Some True) \<and>
              (\<forall>tags. tags_of (q_tag q) = Some tags \<longrightarrow>
                 (\<exists>elems. array_literal tags = Some elems \<and> overlaps_tag elems r)))"
  using assms
  by (auto simp: list_recipes_def Let_def err_def rows_json_def
           split: if_splits store_reply.splits option.splits)

lemma filter_throwing_filter:
  "filter_throwing p xs = Some ys \<Longrightarrow> ys = filter (\<lambda>x. p x = Some True) xs"
proof (induction xs arbitrary: ys)
  case Nil
  then show ?case by simp
next
  case (Cons x xs)
  then show ?case by (auto split: option.splits if_splits)
qed

lemma favorite_recipes_ok:
  assumes "favorite_recipes db s q = Response 200 (JObject [(''recipes'', JArray rs)])"
  shows "\<forall>r \<in> set rs.
           (given (q_search q) \<longrightarrow> title_includes (the (q_search q)) r = Some True) \<and>
           (\<forall>tags. tags_of (q_tag q) = Some tags \<longrightarrow> tag_includes tags r = Some True)"
  using assms
  by (auto simp: favorite_recipes_def Let_def err_def
           split: if_splits store_reply.splits option.splits
           dest!: filter_throwing_filter)

text \<open>
  C6 at the request it fails on. The search term goes into the pattern of \<open>ilike\<close> as it
  is, so \<open>_\<close> and \<open>%\<close> in it are wildcards: the listing of the owner's recipes for the
  term \<open>t_ast\<close> returns the recipe titled \<open>Toast\<close>, whose title does not contain the
  term. The listing of the favorites, which compares with \<open>includes\<close>, returns nothing
  for the same term.
\<close>

theorem C6_search_wildcard:
  "list_recipes StoreOk
     \<lparr>recipes = [[(''id'', JString ''r1''), (''user_id'', JString ''u1''),
                  (''title'', JString ''Toast''), (''tag'', JArray [JString ''Breakfast''])]],
      favorites = [\<lparr>fav_user_id = JString ''u1'', fav_recipe_id = JString ''r1''\<rparr>]\<rparr>
     \<lparr>q_user_id = Some ''u1'', q_search = Some ''t_ast'', q_tag = None\<rparr>
   = Response 200
       (JObject [(''recipes'',
          JArray [JObject [(''id'', JString ''r1''), (''user_id'', JString ''u1''),
                    (''title'', JString ''Toast''),
                    (''tag'', JArray [JString ''Breakfast''])]])]) \<and>
   \<not> js_includes (toLowerCase ''Toast'') (toLowerCase ''t_ast'') \<and>
   favorite_recipes StoreOk
     \<lparr>recipes = [[(''id'', JString ''r1''), (''user_id'', JString ''u1''),
                  (''title'', JString ''Toast''), (''tag'', JArray [JString ''Breakfast''])]],
      favorites = [\<lparr>fav_user_id = JString ''u1'', fav_recipe_id = JString ''r1''\<rparr>]\<rparr>
     \<lparr>q_user_id = Some ''u1'', q_search = Some ''t_ast'', q_tag = None\<rparr>
   = Response 200 (JObject [(''recipes'', JArray [])])"
  by code_simp

end
